theory Spec2Isabelle
  imports Main "HOL-Library.Word"
begin

unbundle bit_operations_syntax

section \<open>Rule evaluation of lib/common/rules.c\<close>

text \<open>
  A shallow embedding of the date-expression evaluator, the date-specification matcher,
  the duration calculator, the typed comparison and the submatch expansion of
  \<^verbatim>\<open>lib/common/rules.c\<close>. Functions of other files of the library
  (iso8601.c, strings.c, xml.c, results.h) are either taken as parameters, collected in the
  records \<open>externals\<close> and \<open>scanners\<close>, or modelled where a text block says so.
  Log output is left out, except for the configuration warnings of
  \<^verbatim>\<open>pcmk__unpack_duration\<close> and for the one log call whose arguments do not
  fit its format; the \<^verbatim>\<open>id\<close> arguments, used for log messages only, are
  left out with it.
\<close>

subsection \<open>Return codes\<close>

text \<open>
  Modelled from the spec: the standard return codes of results.h, which is not among the
  sources. The verdicts form a closed enumeration (ok, within_range, before_range,
  after_range, undetermined); the invalid-argument signal \<^verbatim>\<open>EINVAL\<close> and the
  other error codes are distinct from them.
\<close>

datatype pcmk_rc =
    pcmk_rc_ok
  | pcmk_rc_undetermined
  | pcmk_rc_before_range
  | pcmk_rc_within_range
  | pcmk_rc_after_range
  | pcmk_rc_unpack_error
  | pcmk_rc_bad_input
  | EINVAL
  | ERANGE
  | EOVERFLOW

subsection \<open>Strings\<close>

text \<open>
  The C library's \<^verbatim>\<open>isdigit\<close>, \<^verbatim>\<open>tolower\<close> and
  \<^verbatim>\<open>strcasecmp\<close> in the C locale. \<^verbatim>\<open>strcasecmp\<close> is the one of
  glibc and musl: it walks both strings and returns the difference of the first pair of
  lower-cased bytes that differ (the terminator counts as byte 0), and 0 when there is
  none. A string is the bytes before its terminator; an absent (NULL) string is
  \<open>None\<close>.
\<close>

definition isdigit :: "char \<Rightarrow> bool" where
  "isdigit c = (48 \<le> (of_char c :: nat) \<and> (of_char c :: nat) \<le> 57)"

definition tolower :: "char \<Rightarrow> char" where
  "tolower c =
     (if 65 \<le> (of_char c :: nat) \<and> (of_char c :: nat) \<le> 90
      then char_of ((of_char c :: nat) + 32) else c)"

fun strcasecmp :: "string \<Rightarrow> string \<Rightarrow> int" where
  "strcasecmp [] [] = 0"
| "strcasecmp [] (b # bs) = - int (of_char (tolower b))"
| "strcasecmp (a # as) [] = int (of_char (tolower a))"
| "strcasecmp (a # as) (b # bs) =
     (if tolower a = tolower b then strcasecmp as bs
      else int (of_char (tolower a)) - int (of_char (tolower b)))"

definition pcmk__str_empty :: "string option \<Rightarrow> bool" where
  "pcmk__str_empty s = (case s of None \<Rightarrow> True | Some t \<Rightarrow> t = [])"

datatype pcmk__str_flags = pcmk__str_null_matches | pcmk__str_casei

text \<open>
  Modelled from the spec: \<^verbatim>\<open>pcmk__str_eq\<close> of strings.c, which is not among
  the sources, for the two flags rules.c passes. Tokens are matched case-insensitively
  (\<^verbatim>\<open>pcmk__str_casei\<close>); with \<^verbatim>\<open>pcmk__str_null_matches\<close> an absent
  string matches anything, without it an absent string matches only an absent string.
\<close>

definition pcmk__str_eq :: "string option \<Rightarrow> string option \<Rightarrow> pcmk__str_flags set \<Rightarrow> bool" where
  "pcmk__str_eq s1 s2 flags =
     (case (s1, s2) of
        (None, None) \<Rightarrow> True
      | (None, Some b) \<Rightarrow> pcmk__str_null_matches \<in> flags
      | (Some a, None) \<Rightarrow> pcmk__str_null_matches \<in> flags
      | (Some a, Some b) \<Rightarrow>
          (if pcmk__str_casei \<in> flags then strcasecmp a b = 0 else a = b))"

subsection \<open>Configuration XML\<close>

text \<open>
  An XML element as rules.c reads it: its name, its attributes in document order and its
  child elements. \<^verbatim>\<open>crm_element_value\<close> is the value of the first attribute
  of a name, \<^verbatim>\<open>first_named_child\<close> the first child of a name.
\<close>

datatype xmlNode =
  XmlNode (xml_name: string) (xml_attrs: "(string \<times> string) list") (xml_children: "xmlNode list")

definition crm_element_value :: "xmlNode \<Rightarrow> string \<Rightarrow> string option" where
  "crm_element_value xml attr = map_of (xml_attrs xml) attr"

definition first_named_child :: "xmlNode \<Rightarrow> string \<Rightarrow> xmlNode option" where
  "first_named_child xml child_name = find (\<lambda>c. xml_name c = child_name) (xml_children xml)"

definition PCMK_XA_ID :: string where "PCMK_XA_ID = ''id''"
definition PCMK_XA_START :: string where "PCMK_XA_START = ''start''"
definition PCMK_XA_END :: string where "PCMK_XA_END = ''end''"
definition PCMK_XA_OPERATION :: string where "PCMK_XA_OPERATION = ''operation''"
definition PCMK_XE_DURATION :: string where "PCMK_XE_DURATION = ''duration''"
definition PCMK_XE_DATE_SPEC :: string where "PCMK_XE_DATE_SPEC = ''date_spec''"
definition PCMK_VALUE_IN_RANGE :: string where "PCMK_VALUE_IN_RANGE = ''in_range''"
definition PCMK_VALUE_DATE_SPEC :: string where "PCMK_VALUE_DATE_SPEC = ''date_spec''"
definition PCMK_VALUE_GT :: string where "PCMK_VALUE_GT = ''gt''"
definition PCMK_VALUE_LT :: string where "PCMK_VALUE_LT = ''lt''"
definition PCMK_XA_YEARS :: string where "PCMK_XA_YEARS = ''years''"
definition PCMK_XA_MONTHS :: string where "PCMK_XA_MONTHS = ''months''"
definition PCMK_XA_MONTHDAYS :: string where "PCMK_XA_MONTHDAYS = ''monthdays''"
definition PCMK_XA_HOURS :: string where "PCMK_XA_HOURS = ''hours''"
definition PCMK_XA_MINUTES :: string where "PCMK_XA_MINUTES = ''minutes''"
definition PCMK_XA_SECONDS :: string where "PCMK_XA_SECONDS = ''seconds''"
definition PCMK_XA_YEARDAYS :: string where "PCMK_XA_YEARDAYS = ''yeardays''"
definition PCMK_XA_WEEKYEARS :: string where "PCMK_XA_WEEKYEARS = ''weekyears''"
definition PCMK_XA_WEEKS :: string where "PCMK_XA_WEEKS = ''weeks''"
definition PCMK_XA_WEEKDAYS :: string where "PCMK_XA_WEEKDAYS = ''weekdays''"
definition PCMK__XA_MOON :: string where "PCMK__XA_MOON = ''moon''"

definition pcmk__xe_id :: "xmlNode \<Rightarrow> string option" where
  "pcmk__xe_id xml = crm_element_value xml PCMK_XA_ID"

subsection \<open>Time instants\<close>

text \<open>
  Modelled from the spec: \<^verbatim>\<open>crm_time_t\<close> of iso8601.c, which is not among
  the sources. A time instant is an opaque point in calendar time that supports
  comparison and the addition of a whole number of seconds: here the number of seconds on
  the time line. \<^verbatim>\<open>crm_time_compare\<close> returns -1, 0 or 1.
\<close>

type_synonym crm_time_t = int

definition crm_time_compare :: "crm_time_t \<Rightarrow> crm_time_t \<Rightarrow> int" where
  "crm_time_compare a b = (if a < b then - 1 else if b < a then 1 else 0)"

definition crm_time_add_seconds :: "crm_time_t \<Rightarrow> int \<Rightarrow> crm_time_t" where
  "crm_time_add_seconds t extra = t + extra"

definition pcmk_copy_time :: "crm_time_t \<Rightarrow> crm_time_t" where
  "pcmk_copy_time source = source"

text \<open>
  The object behind a \<^verbatim>\<open>crm_time_t *next_change\<close>: a time that is not
  defined yet (\<^verbatim>\<open>crm_time_is_defined\<close> is false) or a defined instant. The
  pointer itself may be NULL: \<open>None\<close>.
\<close>

datatype time_slot = Undefined | Defined crm_time_t

text \<open>
  Modelled from the spec: \<^verbatim>\<open>pcmk__set_time_if_earlier\<close> of iso8601.c, which
  is not among the sources. A candidate is merged into the next-change hint only if it is
  earlier than the current value or the current value is unset; nothing happens when
  either pointer is NULL.
\<close>

definition pcmk__set_time_if_earlier :: "time_slot option \<Rightarrow> crm_time_t option \<Rightarrow> time_slot option" where
  "pcmk__set_time_if_earlier target source =
     (case (target, source) of
        (Some Undefined, Some s) \<Rightarrow> Some (Defined s)
      | (Some (Defined t), Some s) \<Rightarrow>
          (if crm_time_compare s t < 0 then Some (Defined s) else target)
      | _ \<Rightarrow> target)"

subsection \<open>Functions of other files, taken as parameters\<close>

datatype pcmk__time_component =
    pcmk__time_years
  | pcmk__time_months
  | pcmk__time_weeks
  | pcmk__time_days
  | pcmk__time_hours
  | pcmk__time_minutes
  | pcmk__time_seconds

text \<open>
  What rules.c calls and the sources do not hold. \<open>pcmk__xe_get_datetime\<close> returns
  its return code and the instant it stored (\<open>None\<close>: the pointer stayed NULL); the
  four calendar functions return the components they store; \<open>pcmk__add_time_from_xml\<close>
  returns its return code and the instant it was given as it is after the call;
  \<open>pcmk__parse_ll_range\<close> returns its return code and the two bounds it stored
  (\<^verbatim>\<open>long long\<close>, -1 for an open side).
\<close>

record externals =
  pcmk__xe_get_datetime :: "xmlNode \<Rightarrow> string \<Rightarrow> pcmk_rc \<times> crm_time_t option"
  crm_time_get_gregorian :: "crm_time_t \<Rightarrow> 32 word \<times> 32 word \<times> 32 word"
  crm_time_get_timeofday :: "crm_time_t \<Rightarrow> 32 word \<times> 32 word \<times> 32 word"
  crm_time_get_ordinal :: "crm_time_t \<Rightarrow> 32 word \<times> 32 word"
  crm_time_get_isoweek :: "crm_time_t \<Rightarrow> 32 word \<times> 32 word \<times> 32 word"
  pcmk__add_time_from_xml :: "crm_time_t \<Rightarrow> pcmk__time_component \<Rightarrow> xmlNode \<Rightarrow> pcmk_rc \<times> crm_time_t"
  pcmk__parse_ll_range :: "string \<Rightarrow> pcmk_rc \<times> 64 word \<times> 64 word"

subsection \<open>Date specifications\<close>

definition phase_of_the_moon :: "externals \<Rightarrow> crm_time_t \<Rightarrow> 32 word" where
  "phase_of_the_moon ext now =
     (case crm_time_get_ordinal ext now of (y, diy) \<Rightarrow>
        let goldn = (y mod 19) + 1;
            epact = (11 * goldn + 18) mod 30;
            epact = (if (epact = 25 \<and> goldn > 11) \<or> epact = 24 then epact + 1 else epact)
        in ((((diy + epact) * 6 + 11) mod 177) div 22) AND 7)"

text \<open>
  \<^verbatim>\<open>check_range\<close>: the value is a \<^verbatim>\<open>uint32_t\<close>, the bounds are
  \<^verbatim>\<open>long long\<close>, so the comparisons are those of the signed 64-bit bounds with
  the unsigned value.
\<close>

definition check_range :: "externals \<Rightarrow> xmlNode \<Rightarrow> string \<Rightarrow> 32 word \<Rightarrow> pcmk_rc" where
  "check_range ext date_spec attr v =
     (case crm_element_value date_spec attr of
        None \<Rightarrow> pcmk_rc_ok
      | Some range_text \<Rightarrow>
          (case pcmk__parse_ll_range ext range_text of (parsed, low, high) \<Rightarrow>
             if parsed \<noteq> pcmk_rc_ok then pcmk_rc_ok
             else if low \<noteq> - 1 \<and> uint v < sint low then pcmk_rc_before_range
             else if high \<noteq> - 1 \<and> uint v > sint high then pcmk_rc_after_range
             else pcmk_rc_ok))"

text \<open>
  The array \<^verbatim>\<open>ranges[]\<close> after the calendar calls: the year is the one of
  \<^verbatim>\<open>crm_time_get_ordinal\<close>, which overwrites the Gregorian one.
\<close>

definition ranges :: "externals \<Rightarrow> crm_time_t \<Rightarrow> (string \<times> 32 word) list" where
  "ranges ext now =
     (case crm_time_get_gregorian ext now of (gregorian_year, month, day) \<Rightarrow>
      case crm_time_get_timeofday ext now of (hour, minute, second) \<Rightarrow>
      case crm_time_get_ordinal ext now of (year, yearday) \<Rightarrow>
      case crm_time_get_isoweek ext now of (weekyear, week, weekday) \<Rightarrow>
        [(PCMK_XA_YEARS, year),
         (PCMK_XA_MONTHS, month),
         (PCMK_XA_MONTHDAYS, day),
         (PCMK_XA_HOURS, hour),
         (PCMK_XA_MINUTES, minute),
         (PCMK_XA_SECONDS, second),
         (PCMK_XA_YEARDAYS, yearday),
         (PCMK_XA_WEEKYEARS, weekyear),
         (PCMK_XA_WEEKS, week),
         (PCMK_XA_WEEKDAYS, weekday),
         (PCMK__XA_MOON, phase_of_the_moon ext now)])"

text \<open>The loop over \<^verbatim>\<open>ranges[]\<close>: it returns at the first code that is not ok.\<close>

fun check_ranges :: "externals \<Rightarrow> xmlNode \<Rightarrow> (string \<times> 32 word) list \<Rightarrow> pcmk_rc" where
  "check_ranges ext date_spec [] = pcmk_rc_ok"
| "check_ranges ext date_spec ((attr, v) # rest) =
     (let rc = check_range ext date_spec attr v
      in if rc \<noteq> pcmk_rc_ok then rc else check_ranges ext date_spec rest)"

definition pcmk__evaluate_date_spec :: "externals \<Rightarrow> xmlNode option \<Rightarrow> crm_time_t option \<Rightarrow> pcmk_rc" where
  "pcmk__evaluate_date_spec ext date_spec now =
     (case (date_spec, now) of
        (Some spec, Some t) \<Rightarrow> check_ranges ext spec (ranges ext t)
      | _ \<Rightarrow> EINVAL)"

subsection \<open>Durations\<close>

datatype config_warning =
    Warn_no_id
  | Warn_ignoring pcmk__time_component

text \<open>
  The macro \<^verbatim>\<open>ADD_COMPONENT\<close> on the state it reads and writes: the return
  code \<^verbatim>\<open>rc\<close>, the instant \<^verbatim>\<open>*end\<close> and the configuration warnings
  issued so far.
\<close>

definition ADD_COMPONENT ::
  "externals \<Rightarrow> xmlNode \<Rightarrow> pcmk__time_component \<Rightarrow>
   pcmk_rc \<times> crm_time_t \<times> config_warning list \<Rightarrow> pcmk_rc \<times> crm_time_t \<times> config_warning list" where
  "ADD_COMPONENT ext duration component st =
     (case st of (rc, end_time, warnings) \<Rightarrow>
      case pcmk__add_time_from_xml ext end_time component duration of (sub_rc, end_time') \<Rightarrow>
        if sub_rc \<noteq> pcmk_rc_ok
        then (sub_rc, end_time', warnings @ [Warn_ignoring component])
        else (rc, end_time', warnings))"

text \<open>
  \<^verbatim>\<open>pcmk__unpack_duration\<close>: the argument \<^verbatim>\<open>end\<close> is a pointer to a
  pointer (\<open>None\<close>: NULL, \<open>Some None\<close>: it points to NULL). The result is the return
  code, what \<^verbatim>\<open>end\<close> points to afterwards and the configuration warnings.
\<close>

definition pcmk__unpack_duration ::
  "externals \<Rightarrow> xmlNode option \<Rightarrow> crm_time_t option \<Rightarrow> crm_time_t option option \<Rightarrow>
   pcmk_rc \<times> crm_time_t option option \<times> config_warning list" where
  "pcmk__unpack_duration ext duration start end_ptr =
     (case (start, duration, end_ptr) of
        (Some s, Some d, Some None) \<Rightarrow>
          (let warnings = (if pcmk__str_empty (pcmk__xe_id d) then [Warn_no_id] else []);
               st = (pcmk_rc_ok, pcmk_copy_time s, warnings);
               st = ADD_COMPONENT ext d pcmk__time_years st;
               st = ADD_COMPONENT ext d pcmk__time_months st;
               st = ADD_COMPONENT ext d pcmk__time_weeks st;
               st = ADD_COMPONENT ext d pcmk__time_days st;
               st = ADD_COMPONENT ext d pcmk__time_hours st;
               st = ADD_COMPONENT ext d pcmk__time_minutes st;
               st = ADD_COMPONENT ext d pcmk__time_seconds st
           in case st of (rc, end_time, warnings) \<Rightarrow> (rc, Some (Some end_time), warnings))
      | _ \<Rightarrow> (EINVAL, end_ptr, []))"

subsection \<open>Undefined behaviour\<close>

text \<open>
  Where the C code has undefined behaviour the model returns a fault: a read beyond an
  array or a string (\<open>OutOfBounds\<close>), and a log call whose format has more
  conversions than the call has arguments (\<open>MissingFormatArgument\<close>).
\<close>

datatype fault = OutOfBounds | MissingFormatArgument

subsection \<open>Date expressions\<close>

text \<open>
  Each evaluator returns its return code and the next-change hint as it is after the
  call (the pointer \<^verbatim>\<open>next_change\<close> may be NULL: \<open>None\<close>).
\<close>

definition evaluate_in_range ::
  "externals \<Rightarrow> xmlNode \<Rightarrow> crm_time_t \<Rightarrow> time_slot option \<Rightarrow> pcmk_rc \<times> time_slot option" where
  "evaluate_in_range ext date_expression now next_change =
     (let start = snd (pcmk__xe_get_datetime ext date_expression PCMK_XA_START);
          end_time = snd (pcmk__xe_get_datetime ext date_expression PCMK_XA_END)
      in if start = None \<and> end_time = None then (pcmk_rc_undetermined, next_change)
         else
           let end_time =
                 (if end_time = None
                  then (case first_named_child date_expression PCMK_XE_DURATION of
                          None \<Rightarrow> end_time
                        | Some duration \<Rightarrow>
                            (case fst (snd (pcmk__unpack_duration ext (Some duration) start
                                              (Some end_time))) of
                               None \<Rightarrow> end_time
                             | Some e \<Rightarrow> e))
                  else end_time)
           in if (case start of None \<Rightarrow> False | Some s \<Rightarrow> crm_time_compare now s < 0)
              then (pcmk_rc_before_range, pcmk__set_time_if_earlier next_change start)
              else
                (case end_time of
                   None \<Rightarrow> (pcmk_rc_within_range, next_change)
                 | Some e \<Rightarrow>
                     if crm_time_compare now e > 0 then (pcmk_rc_after_range, next_change)
                     else (pcmk_rc_within_range,
                           if next_change \<noteq> None
                           then pcmk__set_time_if_earlier next_change
                                  (Some (crm_time_add_seconds e 1))
                           else next_change)))"

definition evaluate_gt ::
  "externals \<Rightarrow> xmlNode \<Rightarrow> crm_time_t \<Rightarrow> time_slot option \<Rightarrow> pcmk_rc \<times> time_slot option" where
  "evaluate_gt ext date_expression now next_change =
     (case pcmk__xe_get_datetime ext date_expression PCMK_XA_START of (rc, start) \<Rightarrow>
        if rc \<noteq> pcmk_rc_ok then (pcmk_rc_undetermined, next_change)
        else
          (case start of
             None \<Rightarrow> (pcmk_rc_undetermined, next_change)
           | Some s \<Rightarrow>
               if crm_time_compare now s > 0 then (pcmk_rc_within_range, next_change)
               else (pcmk_rc_before_range,
                     pcmk__set_time_if_earlier next_change
                       (Some (crm_time_add_seconds s 1)))))"

definition evaluate_lt ::
  "externals \<Rightarrow> xmlNode \<Rightarrow> crm_time_t \<Rightarrow> time_slot option \<Rightarrow> pcmk_rc \<times> time_slot option" where
  "evaluate_lt ext date_expression now next_change =
     (case pcmk__xe_get_datetime ext date_expression PCMK_XA_END of (rc, end_time) \<Rightarrow>
        if rc \<noteq> pcmk_rc_ok then (pcmk_rc_undetermined, next_change)
        else
          (case end_time of
             None \<Rightarrow> (pcmk_rc_undetermined, next_change)
           | Some e \<Rightarrow>
               if crm_time_compare now e < 0
               then (pcmk_rc_within_range, pcmk__set_time_if_earlier next_change (Some e))
               else (pcmk_rc_after_range, next_change)))"

text \<open>
  \<^verbatim>\<open>pcmk__evaluate_date_expression\<close>. On an operation it does not
  recognise, the code calls \<^verbatim>\<open>pcmk__config_warn\<close> with a format of two
  \<^verbatim>\<open>%s\<close> conversions and the single argument \<^verbatim>\<open>op\<close>
  (the \<^verbatim>\<open>id\<close> is missing) before it would return
  \<^verbatim>\<open>pcmk_rc_undetermined\<close>: formatting that message is undefined behaviour,
  so this branch is \<open>Inl MissingFormatArgument\<close>. Every other path returns.
\<close>

definition pcmk__evaluate_date_expression ::
  "externals \<Rightarrow> xmlNode option \<Rightarrow> crm_time_t option \<Rightarrow> time_slot option \<Rightarrow>
   fault + (pcmk_rc \<times> time_slot option)" where
  "pcmk__evaluate_date_expression ext date_expression now next_change =
     (case (date_expression, now) of
        (Some expr, Some t) \<Rightarrow>
          (let op = crm_element_value expr PCMK_XA_OPERATION
           in if pcmk__str_eq op (Some PCMK_VALUE_IN_RANGE)
                   {pcmk__str_null_matches, pcmk__str_casei}
              then Inr (evaluate_in_range ext expr t next_change)
              else if pcmk__str_eq op (Some PCMK_VALUE_DATE_SPEC) {pcmk__str_casei}
              then (case first_named_child expr PCMK_XE_DATE_SPEC of
                      None \<Rightarrow> Inr (pcmk_rc_undetermined, next_change)
                    | Some date_spec \<Rightarrow>
                        Inr (pcmk__evaluate_date_spec ext (Some date_spec) (Some t),
                             next_change))
              else if pcmk__str_eq op (Some PCMK_VALUE_GT) {pcmk__str_casei}
              then Inr (evaluate_gt ext expr t next_change)
              else if pcmk__str_eq op (Some PCMK_VALUE_LT) {pcmk__str_casei}
              then Inr (evaluate_lt ext expr t next_change)
              else Inl MissingFormatArgument)
      | _ \<Rightarrow> Inr (EINVAL, next_change))"

subsection \<open>Submatch expansion\<close>

record regmatch_t =
  rm_so :: int
  rm_eo :: int

text \<open>
  Reading \<^verbatim>\<open>submatches[]\<close> beyond its entries, or the matched string beyond
  its end, is undefined behaviour in C: the model returns \<open>Inl OutOfBounds\<close> there.
\<close>

text \<open>
  The loop of \<^verbatim>\<open>process_submatches\<close> over the rest of the source string, with
  the variables it updates: \<^verbatim>\<open>expanded\<close>, the characters written to
  \<^verbatim>\<open>expansion\<close> so far (\<open>None\<close>: the pointer is NULL) and
  \<^verbatim>\<open>*nbytes\<close> (\<open>None\<close>: the pointer is NULL). A percent sign at the end of
  the string is followed by the terminator, which is no digit.
\<close>

fun process_submatches_loop ::
  "string \<Rightarrow> string \<Rightarrow> regmatch_t list \<Rightarrow> int \<Rightarrow> bool \<Rightarrow> string option \<Rightarrow> nat option \<Rightarrow>
   fault + (bool \<times> string option \<times> nat option)" where
  "process_submatches_loop [] match submatches nmatches expanded expansion nbytes =
     Inr (expanded, expansion, nbytes)"
| "process_submatches_loop [c] match submatches nmatches expanded expansion nbytes =
     process_submatches_loop [] match submatches nmatches expanded
       (map_option (\<lambda>e. e @ [c]) expansion) (map_option Suc nbytes)"
| "process_submatches_loop (c # d # src) match submatches nmatches expanded expansion nbytes =
     (if c \<noteq> CHR ''%'' \<or> \<not> isdigit d
      then process_submatches_loop (d # src) match submatches nmatches expanded
             (map_option (\<lambda>e. e @ [c]) expansion) (map_option Suc nbytes)
      else
        let submatch = int (of_char d) - int (of_char (CHR ''0''))
        in if nmatches \<le> submatch
           then process_submatches_loop src match submatches nmatches True expansion nbytes
           else if length submatches \<le> nat submatch then Inl OutOfBounds
           else
             let m = submatches ! nat submatch
             in if rm_so m < 0 \<or> rm_eo m \<le> rm_so m
                then process_submatches_loop src match submatches nmatches True expansion nbytes
                else
                  let match_len = nat (rm_eo m - rm_so m);
                      nbytes = map_option (\<lambda>n. n + match_len) nbytes
                  in (case expansion of
                        None \<Rightarrow>
                          process_submatches_loop src match submatches nmatches True None nbytes
                      | Some e \<Rightarrow>
                          if int (length match) < rm_eo m then Inl OutOfBounds
                          else process_submatches_loop src match submatches nmatches True
                                 (Some (e @ take match_len (drop (nat (rm_so m)) match)))
                                 nbytes))"

definition process_submatches ::
  "string \<Rightarrow> string \<Rightarrow> regmatch_t list \<Rightarrow> int \<Rightarrow> string option \<Rightarrow> nat option \<Rightarrow>
   fault + (bool \<times> string option \<times> nat option)" where
  "process_submatches string match submatches nmatches expansion nbytes =
     process_submatches_loop string match submatches nmatches False expansion
       (map_option (\<lambda>_. 1) nbytes)"

text \<open>
  \<^verbatim>\<open>pcmk__replace_submatches\<close>: the first pass counts into
  \<^verbatim>\<open>nbytes\<close>, the second fills the zeroed buffer of that size. The result is
  the string returned, \<open>None\<close> for NULL.
\<close>

definition pcmk__replace_submatches ::
  "string option \<Rightarrow> string \<Rightarrow> regmatch_t list \<Rightarrow> int \<Rightarrow> fault + string option" where
  "pcmk__replace_submatches string match submatches nmatches =
     (case string of
        None \<Rightarrow> Inr None
      | Some s \<Rightarrow>
          if pcmk__str_empty string then Inr None
          else
            (case process_submatches s match submatches nmatches None (Some 0) of
               Inl f \<Rightarrow> Inl f
             | Inr (expanded, _, _) \<Rightarrow>
                 if \<not> expanded then Inr None
                 else
                   (case process_submatches s match submatches nmatches (Some []) None of
                      Inl f \<Rightarrow> Inl f
                    | Inr (_, result, _) \<Rightarrow> Inr result)))"

subsection \<open>Typed comparison\<close>

datatype pcmk__type =
    pcmk__type_unknown
  | pcmk__type_string
  | pcmk__type_integer
  | pcmk__type_number
  | pcmk__type_version

text \<open>
  What \<^verbatim>\<open>pcmk__cmp_by_type\<close> calls and the sources do not hold:
  \<open>pcmk__scan_ll\<close> and \<open>pcmk__scan_double\<close> return their return code and the number
  they stored (a \<^verbatim>\<open>long long\<close>, and a \<^verbatim>\<open>double\<close> of a type \<open>'d\<close>
  with its comparison \<open>double_less\<close>); \<open>compare_version\<close> returns -1, 0 or 1.
\<close>

record 'd scanners =
  pcmk__scan_ll :: "string \<Rightarrow> pcmk_rc \<times> 64 word"
  pcmk__scan_double :: "string \<Rightarrow> pcmk_rc \<times> 'd"
  double_less :: "'d \<Rightarrow> 'd \<Rightarrow> bool"
  compare_version :: "string \<Rightarrow> string \<Rightarrow> int"

function pcmk__cmp_by_type ::
  "'d scanners \<Rightarrow> string option \<Rightarrow> string option \<Rightarrow> pcmk__type \<Rightarrow> int" where
  "pcmk__cmp_by_type sc l_val r_val ty =
     (case (l_val, r_val) of
        (Some l, Some r) \<Rightarrow>
          (case ty of
             pcmk__type_string \<Rightarrow> strcasecmp l r
           | pcmk__type_integer \<Rightarrow>
               (case pcmk__scan_ll sc l of (rc1, l_val_num) \<Rightarrow>
                case pcmk__scan_ll sc r of (rc2, r_val_num) \<Rightarrow>
                  if rc1 = pcmk_rc_ok \<and> rc2 = pcmk_rc_ok
                  then (if sint l_val_num < sint r_val_num then - 1
                        else if sint l_val_num > sint r_val_num then 1
                        else 0)
                  else pcmk__cmp_by_type sc l_val r_val pcmk__type_string)
           | pcmk__type_number \<Rightarrow>
               (case pcmk__scan_double sc l of (rc1, l_val_num) \<Rightarrow>
                case pcmk__scan_double sc r of (rc2, r_val_num) \<Rightarrow>
                  if rc1 = pcmk_rc_ok \<and> rc2 = pcmk_rc_ok
                  then (if double_less sc l_val_num r_val_num then - 1
                        else if double_less sc r_val_num l_val_num then 1
                        else 0)
                  else pcmk__cmp_by_type sc l_val r_val pcmk__type_string)
           | pcmk__type_version \<Rightarrow> compare_version sc l r
           | pcmk__type_unknown \<Rightarrow> 0)
      | (None, None) \<Rightarrow> 0
      | (Some l, None) \<Rightarrow> 1
      | (None, Some r) \<Rightarrow> - 1)"
  by pat_completeness auto
termination
  by (relation "measure (\<lambda>(sc, l_val, r_val, ty). if ty = pcmk__type_string then 0 else 1)") auto

declare pcmk__cmp_by_type.simps [simp del]

subsection \<open>Concrete instances\<close>

text \<open>
  One instance of the parameters, for evaluating the functions above on concrete
  inputs. Date-time attributes are \<open>T100\<close> and \<open>T200\<close> (the instants 100 and
  200), anything else is invalid; the time of day of an instant counts from instant 0;
  a duration component is valid when its attribute is absent or a decimal number the
  table knows; the ranges are the ones of the table, anything else is no range.
\<close>

definition example_get_datetime :: "xmlNode \<Rightarrow> string \<Rightarrow> pcmk_rc \<times> crm_time_t option" where
  "example_get_datetime xml attr =
     (case crm_element_value xml attr of
        None \<Rightarrow> (pcmk_rc_ok, None)
      | Some text \<Rightarrow>
          (case map_of [(''T100'', 100), (''T200'', 200)] text of
             None \<Rightarrow> (pcmk_rc_unpack_error, None)
           | Some t \<Rightarrow> (pcmk_rc_ok, Some t)))"

definition example_component_attr :: "pcmk__time_component \<Rightarrow> string" where
  "example_component_attr component =
     (case component of
        pcmk__time_years \<Rightarrow> ''years''
      | pcmk__time_months \<Rightarrow> ''months''
      | pcmk__time_weeks \<Rightarrow> ''weeks''
      | pcmk__time_days \<Rightarrow> ''days''
      | pcmk__time_hours \<Rightarrow> ''hours''
      | pcmk__time_minutes \<Rightarrow> ''minutes''
      | pcmk__time_seconds \<Rightarrow> ''seconds'')"

definition example_seconds_of :: "pcmk__time_component \<Rightarrow> int" where
  "example_seconds_of component =
     (case component of
        pcmk__time_years \<Rightarrow> 31536000
      | pcmk__time_months \<Rightarrow> 2592000
      | pcmk__time_weeks \<Rightarrow> 604800
      | pcmk__time_days \<Rightarrow> 86400
      | pcmk__time_hours \<Rightarrow> 3600
      | pcmk__time_minutes \<Rightarrow> 60
      | pcmk__time_seconds \<Rightarrow> 1)"

definition example_add_time ::
  "crm_time_t \<Rightarrow> pcmk__time_component \<Rightarrow> xmlNode \<Rightarrow> pcmk_rc \<times> crm_time_t" where
  "example_add_time t component xml =
     (case crm_element_value xml (example_component_attr component) of
        None \<Rightarrow> (pcmk_rc_ok, t)
      | Some text \<Rightarrow>
          (case map_of [(''1'', 1), (''2'', 2), (''-1'', - 1)] text of
             None \<Rightarrow> (pcmk_rc_unpack_error, t)
           | Some n \<Rightarrow> (pcmk_rc_ok, t + n * example_seconds_of component)))"

definition example_parse_ll_range :: "string \<Rightarrow> pcmk_rc \<times> 64 word \<times> 64 word" where
  "example_parse_ll_range text =
     (case map_of [(''9-17'', (9, 17)), (''6-8'', (6, 8)), (''6-'', (6, - 1)), (''-8'', (- 1, 8))] text of
        None \<Rightarrow> (pcmk_rc_bad_input, - 1, - 1)
      | Some (low, high) \<Rightarrow> (pcmk_rc_ok, low, high))"

definition example_ext :: externals where
  "example_ext =
     \<lparr> pcmk__xe_get_datetime = example_get_datetime,
       crm_time_get_gregorian = (\<lambda>t. (1970, 1, 1)),
       crm_time_get_timeofday =
         (\<lambda>t. (word_of_int (t div 3600), word_of_int (t mod 3600 div 60), word_of_int (t mod 60))),
       crm_time_get_ordinal = (\<lambda>t. (1970, 1)),
       crm_time_get_isoweek = (\<lambda>t. (1970, 1, 4)),
       pcmk__add_time_from_xml = example_add_time,
       pcmk__parse_ll_range = example_parse_ll_range \<rparr>"

definition example_scanners :: "int scanners" where
  "example_scanners =
     \<lparr> pcmk__scan_ll =
         (\<lambda>text. case map_of [(''10'', 10), (''9'', 9), (''-3'', - 3)] text of
                   None \<Rightarrow> (EINVAL, 0)
                 | Some n \<Rightarrow> (pcmk_rc_ok, n)),
       pcmk__scan_double = (\<lambda>text. (EINVAL, 0)),
       double_less = (\<lambda>a b. a < b),
       compare_version = (\<lambda>l r. 0) \<rparr>"

text \<open>A date expression with a start only, and one that names no operation.\<close>

definition example_start_only :: xmlNode where
  "example_start_only =
     XmlNode ''date_expression'' [(''id'', ''e1''), (''operation'', ''gt''), (''start'', ''T100'')] []"

definition example_no_operation :: xmlNode where
  "example_no_operation =
     XmlNode ''date_expression'' [(''id'', ''e2''), (''start'', ''T100''), (''end'', ''T200'')] []"

text \<open>A date expression whose operation is none of the four.\<close>

definition example_unrecognised_operation :: xmlNode where
  "example_unrecognised_operation =
     XmlNode ''date_expression''
       [(''id'', ''e3''), (''operation'', ''between''), (''start'', ''T100'')] []"

text \<open>A date specification with an invalid months range and an hours range.\<close>

definition example_date_spec :: xmlNode where
  "example_date_spec =
     XmlNode ''date_spec'' [(''id'', ''s1''), (''months'', ''June''), (''hours'', ''9-17'')] []"

text \<open>A date specification whose hours have no upper bound.\<close>

definition example_open_spec :: xmlNode where
  "example_open_spec = XmlNode ''date_spec'' [(''id'', ''s2''), (''hours'', ''6-'')] []"

text \<open>A duration whose hours are invalid and whose seconds are valid.\<close>

definition example_duration :: xmlNode where
  "example_duration =
     XmlNode ''duration'' [(''id'', ''d1''), (''hours'', ''one''), (''seconds'', ''2'')] []"

subsection \<open>The fields of a date specification, by position\<close>

text \<open>
  The return code of the loop body of \<^verbatim>\<open>pcmk__evaluate_date_spec\<close> at index
  \<open>i\<close>: \<^verbatim>\<open>check_range(date_spec, id, ranges[i].attr, ranges[i].value)\<close>.
\<close>

definition field_check :: "externals \<Rightarrow> xmlNode \<Rightarrow> crm_time_t \<Rightarrow> nat \<Rightarrow> pcmk_rc" where
  "field_check ext date_spec now i =
     (case ranges ext now ! i of (attr, v) \<Rightarrow> check_range ext date_spec attr v)"

subsection \<open>The duration calculator, in the words of the specification\<close>

text \<open>
  The seven components, largest unit first, and the fold of the specification: it
  returns the best-effort end instant and the list of per-component errors. Each
  component is attempted on the instant reached so far; an invalid component is recorded
  with its error code and skipped, and the fold goes on with the remaining components.
\<close>

definition time_components :: "pcmk__time_component list" where
  "time_components =
     [pcmk__time_years, pcmk__time_months, pcmk__time_weeks, pcmk__time_days,
      pcmk__time_hours, pcmk__time_minutes, pcmk__time_seconds]"

fun spec_add_duration ::
  "externals \<Rightarrow> xmlNode \<Rightarrow> pcmk__time_component list \<Rightarrow> crm_time_t \<Rightarrow>
   crm_time_t \<times> (pcmk__time_component \<times> pcmk_rc) list" where
  "spec_add_duration ext duration [] t = (t, [])"
| "spec_add_duration ext duration (c # cs) t =
     (case pcmk__add_time_from_xml ext t c duration of (sub_rc, t') \<Rightarrow>
        if sub_rc = pcmk_rc_ok then spec_add_duration ext duration cs t'
        else (case spec_add_duration ext duration cs t of
                (end_time, errors) \<Rightarrow> (end_time, (c, sub_rc) # errors)))"

subsection \<open>Submatch expansion, in the words of the specification\<close>

text \<open>
  A placeholder is a percent sign followed by a digit. \<open>group_text\<close> is what the
  placeholder of group \<open>i\<close> expands to: nothing when the index is at least the number
  of submatches, when the group did not take part in the match, or when its captured
  range is empty; the captured text otherwise. \<open>spec_expansion\<close> replaces every
  placeholder by its group's text and copies every other character.
  \<open>submatches_in_bounds\<close> holds of submatches as \<^verbatim>\<open>regexec\<close> sets them:
  the array has the entries counted, and no entry ends beyond the matched string.
\<close>

definition group_text :: "string \<Rightarrow> regmatch_t list \<Rightarrow> int \<Rightarrow> nat \<Rightarrow> string" where
  "group_text match submatches nmatches i =
     (if nmatches \<le> int i then []
      else let m = submatches ! i
           in if rm_so m < 0 \<or> rm_eo m \<le> rm_so m then []
              else take (nat (rm_eo m - rm_so m)) (drop (nat (rm_so m)) match))"

definition digit_of :: "char \<Rightarrow> nat" where
  "digit_of d = of_char d - 48"

fun spec_expansion :: "string \<Rightarrow> string \<Rightarrow> regmatch_t list \<Rightarrow> int \<Rightarrow> string" where
  "spec_expansion [] match submatches nmatches = []"
| "spec_expansion [c] match submatches nmatches = [c]"
| "spec_expansion (c # d # rest) match submatches nmatches =
     (if c = CHR ''%'' \<and> isdigit d
      then group_text match submatches nmatches (digit_of d)
             @ spec_expansion rest match submatches nmatches
      else c # spec_expansion (d # rest) match submatches nmatches)"

fun has_placeholder :: "string \<Rightarrow> bool" where
  "has_placeholder [] = False"
| "has_placeholder [c] = False"
| "has_placeholder (c # d # rest) = ((c = CHR ''%'' \<and> isdigit d) \<or> has_placeholder (d # rest))"

definition submatches_in_bounds :: "string \<Rightarrow> regmatch_t list \<Rightarrow> int \<Rightarrow> bool" where
  "submatches_in_bounds match submatches nmatches =
     (nmatches \<le> int (length submatches)
      \<and> list_all (\<lambda>m. rm_eo m \<le> int (length match)) submatches)"

text \<open>Submatches for the examples: of \<open>db-prod\<close>, and of a match that reads \<open>%1\<close>.\<close>

definition example_match :: string where
  "example_match = ''db-prod''"

definition example_submatches :: "regmatch_t list" where
  "example_submatches = [\<lparr>rm_so = 0, rm_eo = 7\<rparr>, \<lparr>rm_so = 3, rm_eo = 7\<rparr>, \<lparr>rm_so = - 1, rm_eo = - 1\<rparr>]"

definition example_self_submatches :: "regmatch_t list" where
  "example_self_submatches = [\<lparr>rm_so = 0, rm_eo = 2\<rparr>, \<lparr>rm_so = 0, rm_eo = 2\<rparr>]"

subsection \<open>Order of next-change hints\<close>

text \<open>
  \<open>hint_not_later after before\<close>: the hint \<open>after\<close> is not later than the hint
  \<open>before\<close>. An unset hint is later than every instant; a NULL pointer stays NULL.
\<close>

definition hint_not_later :: "time_slot option \<Rightarrow> time_slot option \<Rightarrow> bool" where
  "hint_not_later after before =
     (case before of
        None \<Rightarrow> after = None
      | Some Undefined \<Rightarrow> after \<noteq> None
      | Some (Defined b) \<Rightarrow>
          (case after of Some (Defined a) \<Rightarrow> a \<le> b | _ \<Rightarrow> False))"

section \<open>Properties\<close>

lemmas xml_names =
  PCMK_XA_ID_def PCMK_XA_START_def PCMK_XA_END_def PCMK_XA_OPERATION_def
  PCMK_XE_DURATION_def PCMK_XE_DATE_SPEC_def PCMK_VALUE_IN_RANGE_def
  PCMK_VALUE_DATE_SPEC_def PCMK_VALUE_GT_def PCMK_VALUE_LT_def PCMK_XA_YEARS_def
  PCMK_XA_MONTHS_def PCMK_XA_MONTHDAYS_def PCMK_XA_HOURS_def PCMK_XA_MINUTES_def
  PCMK_XA_SECONDS_def PCMK_XA_YEARDAYS_def PCMK_XA_WEEKYEARS_def PCMK_XA_WEEKS_def
  PCMK_XA_WEEKDAYS_def PCMK__XA_MOON_def

subsection \<open>The concrete instances\<close>

lemma example_start:
  "pcmk__xe_get_datetime example_ext example_start_only PCMK_XA_START = (pcmk_rc_ok, Some 100)"
  by (simp add: example_ext_def example_get_datetime_def example_start_only_def
      crm_element_value_def xml_names)

lemma example_no_end:
  "snd (pcmk__xe_get_datetime example_ext example_start_only PCMK_XA_END) = None"
  by (simp add: example_ext_def example_get_datetime_def example_start_only_def
      crm_element_value_def xml_names)

lemma example_no_duration:
  "first_named_child example_start_only PCMK_XE_DURATION = None"
  by (simp add: example_start_only_def first_named_child_def)

subsection \<open>The gt operation\<close>

text \<open>
  Claim C1. For a gt date expression whose start attribute is a valid instant \<open>S\<close>,
  the evaluation returns within_range exactly when \<open>now\<close> is strictly after \<open>S\<close>
  (and then leaves the hint alone); otherwise it returns before_range and merges the
  candidate \<open>S + 1\<close> second into the next-change hint. At \<open>now = S\<close> with an unset hint
  the result is before_range with next-change \<open>S + 1\<close>; at \<open>now = S + 1\<close> it is
  within_range.
\<close>

theorem evaluate_gt_valid_start:
  assumes "pcmk__xe_get_datetime ext date_expression PCMK_XA_START = (pcmk_rc_ok, Some S)"
  shows "(fst (evaluate_gt ext date_expression now next_change) = pcmk_rc_within_range \<longleftrightarrow> S < now)
       \<and> (S < now \<longrightarrow> evaluate_gt ext date_expression now next_change
                        = (pcmk_rc_within_range, next_change))
       \<and> (\<not> S < now \<longrightarrow> evaluate_gt ext date_expression now next_change
                        = (pcmk_rc_before_range,
                           pcmk__set_time_if_earlier next_change (Some (S + 1))))
       \<and> evaluate_gt ext date_expression S (Some Undefined)
            = (pcmk_rc_before_range, Some (Defined (S + 1)))
       \<and> fst (evaluate_gt ext date_expression (S + 1) next_change) = pcmk_rc_within_range"
  using assms
  by (simp add: evaluate_gt_def crm_time_compare_def crm_time_add_seconds_def
      pcmk__set_time_if_earlier_def)

theorem evaluate_gt_valid_start_witness:
  "pcmk__xe_get_datetime example_ext example_start_only PCMK_XA_START = (pcmk_rc_ok, Some 100)
   \<and> evaluate_gt example_ext example_start_only 100 (Some Undefined)
       = (pcmk_rc_before_range, Some (Defined 101))
   \<and> evaluate_gt example_ext example_start_only 101 (Some Undefined)
       = (pcmk_rc_within_range, Some Undefined)"
  using evaluate_gt_valid_start [OF example_start, of 101 "Some Undefined"] example_start
  by simp

subsection \<open>The in_range operation with a start only\<close>

lemma evaluate_in_range_start_only:
  assumes "snd (pcmk__xe_get_datetime ext date_expression PCMK_XA_START) = Some S"
    and "snd (pcmk__xe_get_datetime ext date_expression PCMK_XA_END) = None"
    and "first_named_child date_expression PCMK_XE_DURATION = None"
  shows "evaluate_in_range ext date_expression now next_change =
           (if now < S then (pcmk_rc_before_range, pcmk__set_time_if_earlier next_change (Some S))
            else (pcmk_rc_within_range, next_change))"
  using assms by (simp add: evaluate_in_range_def crm_time_compare_def)

text \<open>
  Claim C3, as stated, fails at \<open>now = start\<close>: the lower bound of in_range is
  inclusive (\<^verbatim>\<open>crm_time_compare(now, start) < 0\<close> gives before_range), the one
  of gt is strict (\<^verbatim>\<open>crm_time_compare(now, start) > 0\<close> gives within_range).
  For the expression with start \<open>T100\<close> and no end or duration, at instant 100 in_range
  yields within_range and gt yields before_range.
\<close>

theorem in_range_differs_from_gt_at_start:
  "fst (evaluate_in_range example_ext example_start_only 100 None) = pcmk_rc_within_range
   \<and> fst (evaluate_gt example_ext example_start_only 100 None) = pcmk_rc_before_range
   \<and> fst (evaluate_in_range example_ext example_start_only 100 None)
       \<noteq> fst (evaluate_gt example_ext example_start_only 100 None)"
  using example_start example_no_end example_no_duration
  by (simp add: evaluate_in_range_def evaluate_gt_def crm_time_compare_def)

text \<open>
  Claim C3, amended. For an in_range date expression with a valid start \<open>S\<close>, no end
  and no duration, the verdict equals the verdict of gt with the same start at every
  \<open>now\<close> other than \<open>S\<close>; at \<open>now = S\<close> in_range yields within_range where gt
  yields before_range; and the verdict is never after_range.
\<close>

theorem in_range_start_only_like_gt_off_start:
  assumes "pcmk__xe_get_datetime ext date_expression PCMK_XA_START = (pcmk_rc_ok, Some S)"
    and "snd (pcmk__xe_get_datetime ext date_expression PCMK_XA_END) = None"
    and "first_named_child date_expression PCMK_XE_DURATION = None"
  shows "(now \<noteq> S \<longrightarrow> fst (evaluate_in_range ext date_expression now next_change)
                       = fst (evaluate_gt ext date_expression now next_change))
       \<and> fst (evaluate_in_range ext date_expression S next_change) = pcmk_rc_within_range
       \<and> fst (evaluate_gt ext date_expression S next_change) = pcmk_rc_before_range
       \<and> fst (evaluate_in_range ext date_expression now next_change) \<noteq> pcmk_rc_after_range"
  using assms
  by (simp add: evaluate_in_range_def evaluate_gt_def crm_time_compare_def)

theorem in_range_start_only_like_gt_off_start_witness:
  "pcmk__xe_get_datetime example_ext example_start_only PCMK_XA_START = (pcmk_rc_ok, Some 100)
   \<and> snd (pcmk__xe_get_datetime example_ext example_start_only PCMK_XA_END) = None
   \<and> first_named_child example_start_only PCMK_XE_DURATION = None
   \<and> fst (evaluate_in_range example_ext example_start_only 99 None) = pcmk_rc_before_range
   \<and> fst (evaluate_gt example_ext example_start_only 99 None) = pcmk_rc_before_range
   \<and> fst (evaluate_in_range example_ext example_start_only 101 None) = pcmk_rc_within_range
   \<and> fst (evaluate_gt example_ext example_start_only 101 None) = pcmk_rc_within_range"
  using in_range_start_only_like_gt_off_start
          [OF example_start example_no_end example_no_duration, of 99 None]
        in_range_start_only_like_gt_off_start
          [OF example_start example_no_end example_no_duration, of 101 None]
        example_start example_no_end example_no_duration
  by (simp add: evaluate_gt_def crm_time_compare_def)

subsection \<open>The next-change hint\<close>

lemma hint_not_later_refl: "hint_not_later h h"
  by (simp add: hint_not_later_def split: option.split time_slot.split)

lemma set_time_if_earlier_not_later:
  "hint_not_later (pcmk__set_time_if_earlier target source) target"
  by (simp add: hint_not_later_def pcmk__set_time_if_earlier_def crm_time_compare_def
      split: option.split time_slot.split)

lemma evaluate_in_range_not_later:
  "hint_not_later (snd (evaluate_in_range ext e now h)) h"
  by (simp add: evaluate_in_range_def Let_def hint_not_later_refl set_time_if_earlier_not_later
      split: option.split)

lemma evaluate_gt_not_later:
  "hint_not_later (snd (evaluate_gt ext e now h)) h"
  by (simp add: evaluate_gt_def hint_not_later_refl set_time_if_earlier_not_later
      split: option.split prod.split)

lemma evaluate_lt_not_later:
  "hint_not_later (snd (evaluate_lt ext e now h)) h"
  by (simp add: evaluate_lt_def hint_not_later_refl set_time_if_earlier_not_later
      split: option.split prod.split)

lemma evaluate_date_expression_not_later:
  "pcmk__evaluate_date_expression ext e now h = Inr r \<Longrightarrow> hint_not_later (snd r) h"
  by (auto simp add: pcmk__evaluate_date_expression_def Let_def hint_not_later_refl
      evaluate_in_range_not_later evaluate_gt_not_later evaluate_lt_not_later
      split: option.splits if_splits)

text \<open>
  Claim C4. For every evaluation of a date expression (in_range, gt, lt, and the
  dispatcher over them wherever it returns) the next-change hint after the evaluation is
  not later than the hint before it: a candidate replaces the hint only if the hint is unset or the
  candidate is earlier, so an evaluation can lower the hint and never raise it.
\<close>

theorem next_change_only_lowered:
  "hint_not_later (snd (evaluate_in_range ext date_expression now next_change)) next_change
   \<and> hint_not_later (snd (evaluate_gt ext date_expression now next_change)) next_change
   \<and> hint_not_later (snd (evaluate_lt ext date_expression now next_change)) next_change
   \<and> (\<forall>r. pcmk__evaluate_date_expression ext expression instant next_change = Inr r
          \<longrightarrow> hint_not_later (snd r) next_change)
   \<and> pcmk__set_time_if_earlier (Some Undefined) (Some candidate) = Some (Defined candidate)
   \<and> pcmk__set_time_if_earlier (Some (Defined current)) (Some candidate)
        = Some (Defined (if candidate < current then candidate else current))"
  using evaluate_date_expression_not_later [of ext expression instant next_change]
  by (simp add: evaluate_in_range_not_later evaluate_gt_not_later evaluate_lt_not_later
      pcmk__set_time_if_earlier_def crm_time_compare_def)

theorem next_change_only_lowered_witness:
  "snd (evaluate_gt example_ext example_start_only 50 (Some (Defined 70))) = Some (Defined 70)
   \<and> snd (evaluate_gt example_ext example_start_only 50 (Some (Defined 170))) = Some (Defined 101)
   \<and> hint_not_later (Some (Defined 101)) (Some (Defined 170))
   \<and> snd (evaluate_lt example_ext example_no_operation 50 (Some (Defined 300))) = Some (Defined 200)
   \<and> snd (evaluate_in_range example_ext example_no_operation 150 (Some Undefined)) = Some (Defined 201)
   \<and> snd (evaluate_in_range example_ext example_no_operation 50 (Some (Defined 70))) = Some (Defined 70)"
  using next_change_only_lowered
          [of example_ext example_start_only 50 "Some (Defined 170)" None None 0 0]
  by (simp add: hint_not_later_def evaluate_gt_def evaluate_lt_def evaluate_in_range_def
      example_ext_def example_get_datetime_def example_start_only_def example_no_operation_def
      crm_element_value_def first_named_child_def xml_names crm_time_compare_def
      crm_time_add_seconds_def pcmk__set_time_if_earlier_def)

subsection \<open>Return codes of the evaluation\<close>

lemma check_range_codes:
  "check_range ext spec attr v \<in> {pcmk_rc_ok, pcmk_rc_before_range, pcmk_rc_after_range}"
  by (simp add: check_range_def split: option.split prod.split)

lemma check_ranges_codes:
  "check_ranges ext spec rs \<in> {pcmk_rc_ok, pcmk_rc_before_range, pcmk_rc_after_range}"
proof (induction rs)
  case Nil
  show ?case by simp
next
  case (Cons r rs)
  obtain attr v where r: "r = (attr, v)" by (cases r)
  from check_range_codes [of ext spec attr v] Cons.IH show ?case
    unfolding r by (auto simp add: Let_def)
qed

lemma evaluate_date_spec_codes:
  "pcmk__evaluate_date_spec ext (Some spec) (Some t)
     \<in> {pcmk_rc_ok, pcmk_rc_before_range, pcmk_rc_after_range}"
  using check_ranges_codes [of ext spec "ranges ext t"]
  by (simp add: pcmk__evaluate_date_spec_def)

lemma evaluate_in_range_codes:
  "fst (evaluate_in_range ext e now h)
     \<in> {pcmk_rc_undetermined, pcmk_rc_before_range, pcmk_rc_within_range, pcmk_rc_after_range}"
  by (simp add: evaluate_in_range_def Let_def split: option.split)

lemma evaluate_gt_codes:
  "fst (evaluate_gt ext e now h)
     \<in> {pcmk_rc_undetermined, pcmk_rc_before_range, pcmk_rc_within_range}"
  by (simp add: evaluate_gt_def split: option.split prod.split)

lemma evaluate_lt_codes:
  "fst (evaluate_lt ext e now h)
     \<in> {pcmk_rc_undetermined, pcmk_rc_within_range, pcmk_rc_after_range}"
  by (simp add: evaluate_lt_def split: option.split prod.split)

lemma evaluate_date_expression_paths:
  assumes "pcmk__evaluate_date_expression ext (Some expr) (Some t) h = Inr r"
  shows "r = evaluate_in_range ext expr t h
       \<or> r = (pcmk_rc_undetermined, h)
       \<or> (\<exists>date_spec. r = (pcmk__evaluate_date_spec ext (Some date_spec) (Some t), h))
       \<or> r = evaluate_gt ext expr t h
       \<or> r = evaluate_lt ext expr t h"
  using assms
  by (auto simp add: pcmk__evaluate_date_expression_def Let_def
      split: option.splits if_splits)

lemma evaluate_date_expression_codes:
  assumes "pcmk__evaluate_date_expression ext (Some expr) (Some t) h = Inr r"
  shows "fst r \<in> {pcmk_rc_ok, pcmk_rc_within_range, pcmk_rc_before_range, pcmk_rc_after_range,
                 pcmk_rc_undetermined}"
proof -
  from evaluate_date_expression_paths [OF assms]
  consider (in_range) "r = evaluate_in_range ext expr t h"
    | (no_spec) "r = (pcmk_rc_undetermined, h)"
    | (date_spec) date_spec
        where "r = (pcmk__evaluate_date_spec ext (Some date_spec) (Some t), h)"
    | (gt) "r = evaluate_gt ext expr t h"
    | (lt) "r = evaluate_lt ext expr t h"
    by blast
  then show ?thesis
  proof cases
    case in_range
    with evaluate_in_range_codes [of ext expr t h] show ?thesis by auto
  next
    case no_spec
    then show ?thesis by simp
  next
    case date_spec
    with evaluate_date_spec_codes [of ext date_spec t] show ?thesis by auto
  next
    case gt
    with evaluate_gt_codes [of ext expr t h] show ?thesis by auto
  next
    case lt
    with evaluate_lt_codes [of ext expr t h] show ?thesis by auto
  qed
qed

lemma evaluate_date_expression_absent:
  "pcmk__evaluate_date_expression ext None now next_change = Inr (EINVAL, next_change)"
  "pcmk__evaluate_date_expression ext date_expression None next_change
   = Inr (EINVAL, next_change)"
  "EINVAL \<notin> {pcmk_rc_ok, pcmk_rc_within_range, pcmk_rc_before_range, pcmk_rc_after_range,
             pcmk_rc_undetermined}"
  by (simp_all add: pcmk__evaluate_date_expression_def split: option.split)

lemma evaluate_date_spec_absent:
  "pcmk__evaluate_date_spec ext None now = EINVAL"
  "pcmk__evaluate_date_spec ext date_spec None = EINVAL"
  by (simp_all add: pcmk__evaluate_date_spec_def split: option.split)

text \<open>
  The dispatcher returns exactly when the operation is absent or one of the four tokens,
  whatever the case of its letters.
\<close>

lemma evaluate_date_expression_returns:
  "(\<exists>r. pcmk__evaluate_date_expression ext (Some expr) (Some t) h = Inr r)
   \<longleftrightarrow> (case crm_element_value expr PCMK_XA_OPERATION of
          None \<Rightarrow> True
        | Some op \<Rightarrow> strcasecmp op PCMK_VALUE_IN_RANGE = 0
                    \<or> strcasecmp op PCMK_VALUE_DATE_SPEC = 0
                    \<or> strcasecmp op PCMK_VALUE_GT = 0
                    \<or> strcasecmp op PCMK_VALUE_LT = 0)"
  by (auto simp add: pcmk__evaluate_date_expression_def pcmk__str_eq_def Let_def
      split: option.splits)

lemma unrecognised_operation_fault:
  assumes "crm_element_value expr PCMK_XA_OPERATION = Some op"
    and "strcasecmp op PCMK_VALUE_IN_RANGE \<noteq> 0" and "strcasecmp op PCMK_VALUE_DATE_SPEC \<noteq> 0"
    and "strcasecmp op PCMK_VALUE_GT \<noteq> 0" and "strcasecmp op PCMK_VALUE_LT \<noteq> 0"
  shows "pcmk__evaluate_date_expression ext (Some expr) (Some t) h = Inl MissingFormatArgument"
  using assms by (simp add: pcmk__evaluate_date_expression_def pcmk__str_eq_def)

text \<open>
  Claim C9. The first half holds (lemmas \<open>evaluate_date_expression_absent\<close> and
  \<open>evaluate_date_spec_absent\<close>: an absent expression or an absent \<open>now\<close> gives
  \<^verbatim>\<open>EINVAL\<close>, which is none of the verdicts), and wherever the evaluation
  returns with both arguments present its result is a verdict (lemma
  \<open>evaluate_date_expression_codes\<close>). But it does not return for every pair of present
  arguments: for the expression whose operation is \<open>between\<close>, evaluated at instant
  100, the code does not reach its \<^verbatim>\<open>return\<close> of undetermined, because
  the warning before it is formatted with a missing argument.
\<close>

theorem unrecognised_operation_is_undefined:
  "pcmk__evaluate_date_expression ext (Some example_unrecognised_operation) (Some 100)
     next_change = Inl MissingFormatArgument
   \<and> pcmk__evaluate_date_expression ext (Some example_unrecognised_operation) (Some 100)
       next_change \<noteq> Inr (pcmk_rc_undetermined, next_change)"
  by (simp add: unrecognised_operation_fault [of _ "''between''"]
      example_unrecognised_operation_def crm_element_value_def xml_names tolower_def)

theorem unrecognised_operation_is_undefined_witness:
  "pcmk__evaluate_date_expression example_ext (Some example_unrecognised_operation) (Some 100)
     None = Inl MissingFormatArgument
   \<and> pcmk__evaluate_date_expression example_ext None (Some 100) None = Inr (EINVAL, None)
   \<and> pcmk__evaluate_date_expression example_ext (Some example_start_only) None None
       = Inr (EINVAL, None)
   \<and> pcmk__evaluate_date_expression example_ext (Some example_start_only) (Some 100) None
       = Inr (pcmk_rc_before_range, None)"
  using unrecognised_operation_is_undefined [of example_ext None]
  by (simp add: pcmk__evaluate_date_expression_def pcmk__str_eq_def evaluate_gt_def
      example_ext_def example_get_datetime_def example_start_only_def
      crm_element_value_def xml_names tolower_def crm_time_compare_def
      crm_time_add_seconds_def pcmk__set_time_if_earlier_def)

subsection \<open>The default operation\<close>

text \<open>
  Claim C10. A date expression whose operation attribute is absent is evaluated exactly
  as one whose operation is in_range: both return what \<^verbatim>\<open>evaluate_in_range\<close>
  returns, and the absent operation is not treated as an unrecognised one.
\<close>

theorem absent_operation_is_in_range:
  assumes "crm_element_value date_expression PCMK_XA_OPERATION = None
           \<or> crm_element_value date_expression PCMK_XA_OPERATION = Some PCMK_VALUE_IN_RANGE"
  shows "pcmk__evaluate_date_expression ext (Some date_expression) (Some now) next_change
         = Inr (evaluate_in_range ext date_expression now next_change)"
  using assms
  by (auto simp add: pcmk__evaluate_date_expression_def pcmk__str_eq_def xml_names tolower_def)

theorem absent_operation_is_in_range_witness:
  "crm_element_value example_no_operation PCMK_XA_OPERATION = None
   \<and> pcmk__evaluate_date_expression example_ext (Some example_no_operation) (Some 150) (Some Undefined)
       = Inr (evaluate_in_range example_ext example_no_operation 150 (Some Undefined))
   \<and> evaluate_in_range example_ext example_no_operation 150 (Some Undefined)
       = (pcmk_rc_within_range, Some (Defined 201))"
  using absent_operation_is_in_range [of example_no_operation example_ext 150 "Some Undefined"]
  by (simp add: evaluate_in_range_def example_ext_def example_get_datetime_def
      example_no_operation_def crm_element_value_def first_named_child_def xml_names
      crm_time_compare_def crm_time_add_seconds_def pcmk__set_time_if_earlier_def)

subsection \<open>Date specifications\<close>

lemma check_ranges_first_failure:
  assumes "i < length rs"
    and "\<forall>j<i. check_range ext spec (fst (rs ! j)) (snd (rs ! j)) = pcmk_rc_ok"
    and "check_range ext spec (fst (rs ! i)) (snd (rs ! i)) \<noteq> pcmk_rc_ok"
  shows "check_ranges ext spec rs = check_range ext spec (fst (rs ! i)) (snd (rs ! i))"
  using assms
proof (induction rs arbitrary: i)
  case Nil
  then show ?case by simp
next
  case (Cons r rs)
  obtain attr v where r: "r = (attr, v)" by (cases r)
  show ?case
  proof (cases i)
    case 0
    with Cons.prems r show ?thesis by simp
  next
    case (Suc k)
    from Cons.prems(2) Suc have head: "check_range ext spec attr v = pcmk_rc_ok"
      using r by fastforce
    from Cons.prems(2) Suc
    have earlier: "\<forall>j<k. check_range ext spec (fst (rs ! j)) (snd (rs ! j)) = pcmk_rc_ok"
      by fastforce
    from Cons.prems Suc have "k < length rs"
      and "check_range ext spec (fst (rs ! k)) (snd (rs ! k)) \<noteq> pcmk_rc_ok"
      by simp_all
    from Cons.IH [OF this(1) earlier this(2)] head r Suc show ?thesis by simp
  qed
qed

lemma check_ranges_all_ok:
  assumes "\<forall>j<length rs. check_range ext spec (fst (rs ! j)) (snd (rs ! j)) = pcmk_rc_ok"
  shows "check_ranges ext spec rs = pcmk_rc_ok"
  using assms
proof (induction rs)
  case Nil
  show ?case by simp
next
  case (Cons r rs)
  obtain attr v where r: "r = (attr, v)" by (cases r)
  from Cons.prems have head: "check_range ext spec attr v = pcmk_rc_ok"
    using r by fastforce
  from Cons.prems
  have "\<forall>j<length rs. check_range ext spec (fst (rs ! j)) (snd (rs ! j)) = pcmk_rc_ok"
    by fastforce
  from Cons.IH [OF this] head r show ?case by simp
qed

lemma length_ranges: "length (ranges ext now) = 11"
  by (simp add: ranges_def split: prod.split)

lemma ranges_attrs:
  "map fst (ranges ext now) =
     [PCMK_XA_YEARS, PCMK_XA_MONTHS, PCMK_XA_MONTHDAYS, PCMK_XA_HOURS, PCMK_XA_MINUTES,
      PCMK_XA_SECONDS, PCMK_XA_YEARDAYS, PCMK_XA_WEEKYEARS, PCMK_XA_WEEKS, PCMK_XA_WEEKDAYS,
      PCMK__XA_MOON]"
  by (simp add: ranges_def split: prod.split)

lemma ranges_values:
  "map snd (ranges ext now) =
     [fst (crm_time_get_ordinal ext now),
      fst (snd (crm_time_get_gregorian ext now)),
      snd (snd (crm_time_get_gregorian ext now)),
      fst (crm_time_get_timeofday ext now),
      fst (snd (crm_time_get_timeofday ext now)),
      snd (snd (crm_time_get_timeofday ext now)),
      snd (crm_time_get_ordinal ext now),
      fst (crm_time_get_isoweek ext now),
      fst (snd (crm_time_get_isoweek ext now)),
      snd (snd (crm_time_get_isoweek ext now)),
      phase_of_the_moon ext now]"
  by (simp add: ranges_def split: prod.split)

lemma field_check_alt:
  "field_check ext spec now i =
     check_range ext spec (fst (ranges ext now ! i)) (snd (ranges ext now ! i))"
  by (simp add: field_check_def split: prod.split)

lemma evaluate_date_spec_first_failure:
  assumes "i < 11" and "\<forall>j<i. field_check ext spec now j = pcmk_rc_ok"
    and "field_check ext spec now i \<noteq> pcmk_rc_ok"
  shows "pcmk__evaluate_date_spec ext (Some spec) (Some now) = field_check ext spec now i"
  using check_ranges_first_failure [of i "ranges ext now" ext spec] assms
  by (simp add: pcmk__evaluate_date_spec_def length_ranges field_check_alt)

lemma evaluate_date_spec_all_ok:
  assumes "\<forall>j<11. field_check ext spec now j = pcmk_rc_ok"
  shows "pcmk__evaluate_date_spec ext (Some spec) (Some now) = pcmk_rc_ok"
  using check_ranges_all_ok [of "ranges ext now" ext spec] assms
  by (simp add: pcmk__evaluate_date_spec_def length_ranges field_check_alt)

lemma check_range_absent:
  "crm_element_value spec attr = None \<Longrightarrow> check_range ext spec attr v = pcmk_rc_ok"
  by (simp add: check_range_def)

lemma check_range_invalid:
  "crm_element_value spec attr = Some text \<Longrightarrow> fst (pcmk__parse_ll_range ext text) \<noteq> pcmk_rc_ok
   \<Longrightarrow> check_range ext spec attr v = pcmk_rc_ok"
  by (cases "pcmk__parse_ll_range ext text") (simp add: check_range_def)

lemma check_range_valid:
  "crm_element_value spec attr = Some text \<Longrightarrow> pcmk__parse_ll_range ext text = (pcmk_rc_ok, low, high)
   \<Longrightarrow> check_range ext spec attr v =
        (if low \<noteq> - 1 \<and> uint v < sint low then pcmk_rc_before_range
         else if high \<noteq> - 1 \<and> sint high < uint v then pcmk_rc_after_range
         else pcmk_rc_ok)"
  by (simp add: check_range_def)

lemma field_check_hours:
  "field_check ext spec now 3 = check_range ext spec PCMK_XA_HOURS (fst (crm_time_get_timeofday ext now))"
  by (simp add: field_check_def ranges_def split: prod.split)

lemma field_check_first_three:
  "field_check ext spec now 0 = check_range ext spec PCMK_XA_YEARS (fst (crm_time_get_ordinal ext now))"
  "field_check ext spec now (Suc 0) = check_range ext spec PCMK_XA_MONTHS (fst (snd (crm_time_get_gregorian ext now)))"
  "field_check ext spec now 2 = check_range ext spec PCMK_XA_MONTHDAYS (snd (snd (crm_time_get_gregorian ext now)))"
  by (simp_all add: field_check_def ranges_def split: prod.split)

lemma invalid_months_violated_hours:
  assumes years: "crm_element_value spec PCMK_XA_YEARS = None"
    and months: "crm_element_value spec PCMK_XA_MONTHS = Some text"
    and invalid: "fst (pcmk__parse_ll_range ext text) \<noteq> pcmk_rc_ok"
    and monthdays: "crm_element_value spec PCMK_XA_MONTHDAYS = None"
    and hours: "check_range ext spec PCMK_XA_HOURS (fst (crm_time_get_timeofday ext now)) \<noteq> pcmk_rc_ok"
  shows "pcmk__evaluate_date_spec ext (Some spec) (Some now)
         = check_range ext spec PCMK_XA_HOURS (fst (crm_time_get_timeofday ext now))"
proof -
  have "\<forall>j<3. field_check ext spec now j = pcmk_rc_ok"
  proof (intro allI impI)
    fix j :: nat
    assume "j < 3"
    then consider "j = 0" | "j = Suc 0" | "j = 2" by linarith
    then show "field_check ext spec now j = pcmk_rc_ok"
      using years months invalid monthdays
      by cases (simp_all add: field_check_first_three check_range_absent check_range_invalid)
  qed
  from evaluate_date_spec_first_failure [of 3 ext spec now] this hours
  show ?thesis by (simp add: field_check_hours)
qed

text \<open>
  Claim C2. The matcher tests the fields in the fixed order years, months, monthdays,
  hours, minutes, seconds, yeardays, weekyears, weeks, weekdays, moon, each against its
  component of \<open>now\<close>. The first field whose check is not ok decides: the result is its
  before_range or after_range, whatever the later fields are. When every check is ok the
  result is ok. The check of a field is ok when its attribute is absent, and equally when
  its range text cannot be parsed. The check of a field whose range parses depends on the
  value alone: before_range when the value is below the lower bound, after_range when it
  is not and is above the upper bound, ok otherwise, where a bound of - 1 is no bound. So
  a specification with an invalid months range, no years and no monthdays, and a violated
  hours range reports the hours violation.
\<close>

theorem date_spec_first_violated_field:
  "map fst (ranges ext now) =
     [PCMK_XA_YEARS, PCMK_XA_MONTHS, PCMK_XA_MONTHDAYS, PCMK_XA_HOURS, PCMK_XA_MINUTES,
      PCMK_XA_SECONDS, PCMK_XA_YEARDAYS, PCMK_XA_WEEKYEARS, PCMK_XA_WEEKS, PCMK_XA_WEEKDAYS,
      PCMK__XA_MOON]
   \<and> map snd (ranges ext now) =
       [fst (crm_time_get_ordinal ext now),
        fst (snd (crm_time_get_gregorian ext now)),
        snd (snd (crm_time_get_gregorian ext now)),
        fst (crm_time_get_timeofday ext now),
        fst (snd (crm_time_get_timeofday ext now)),
        snd (snd (crm_time_get_timeofday ext now)),
        snd (crm_time_get_ordinal ext now),
        fst (crm_time_get_isoweek ext now),
        fst (snd (crm_time_get_isoweek ext now)),
        snd (snd (crm_time_get_isoweek ext now)),
        phase_of_the_moon ext now]
   \<and> (\<forall>i<11. (\<forall>j<i. field_check ext spec now j = pcmk_rc_ok)
                 \<longrightarrow> field_check ext spec now i \<noteq> pcmk_rc_ok
                 \<longrightarrow> pcmk__evaluate_date_spec ext (Some spec) (Some now)
                       = field_check ext spec now i)
   \<and> ((\<forall>i<11. field_check ext spec now i = pcmk_rc_ok)
          \<longrightarrow> pcmk__evaluate_date_spec ext (Some spec) (Some now) = pcmk_rc_ok)
   \<and> (\<forall>i<11. field_check ext spec now i
                 \<in> {pcmk_rc_ok, pcmk_rc_before_range, pcmk_rc_after_range})
   \<and> (\<forall>attr v. crm_element_value spec attr = None
                 \<longrightarrow> check_range ext spec attr v = pcmk_rc_ok)
   \<and> (\<forall>attr v text. crm_element_value spec attr = Some text
                 \<longrightarrow> fst (pcmk__parse_ll_range ext text) \<noteq> pcmk_rc_ok
                 \<longrightarrow> check_range ext spec attr v = pcmk_rc_ok)
   \<and> (\<forall>attr v text low high.
          crm_element_value spec attr = Some text
          \<longrightarrow> pcmk__parse_ll_range ext text = (pcmk_rc_ok, low, high)
          \<longrightarrow> check_range ext spec attr v =
                (if low \<noteq> - 1 \<and> uint v < sint low then pcmk_rc_before_range
                 else if high \<noteq> - 1 \<and> sint high < uint v then pcmk_rc_after_range
                 else pcmk_rc_ok))
   \<and> (\<forall>text. crm_element_value spec PCMK_XA_YEARS = None
                 \<longrightarrow> crm_element_value spec PCMK_XA_MONTHS = Some text
                 \<longrightarrow> fst (pcmk__parse_ll_range ext text) \<noteq> pcmk_rc_ok
                 \<longrightarrow> crm_element_value spec PCMK_XA_MONTHDAYS = None
                 \<longrightarrow> check_range ext spec PCMK_XA_HOURS (fst (crm_time_get_timeofday ext now))
                       \<noteq> pcmk_rc_ok
                 \<longrightarrow> pcmk__evaluate_date_spec ext (Some spec) (Some now)
                       = check_range ext spec PCMK_XA_HOURS
                           (fst (crm_time_get_timeofday ext now)))"
proof -
  have order: "map fst (ranges ext now) =
     [PCMK_XA_YEARS, PCMK_XA_MONTHS, PCMK_XA_MONTHDAYS, PCMK_XA_HOURS, PCMK_XA_MINUTES,
      PCMK_XA_SECONDS, PCMK_XA_YEARDAYS, PCMK_XA_WEEKYEARS, PCMK_XA_WEEKS, PCMK_XA_WEEKDAYS,
      PCMK__XA_MOON]"
    by (rule ranges_attrs)
  have first: "\<forall>i<11. (\<forall>j<i. field_check ext spec now j = pcmk_rc_ok)
                 \<longrightarrow> field_check ext spec now i \<noteq> pcmk_rc_ok
                 \<longrightarrow> pcmk__evaluate_date_spec ext (Some spec) (Some now)
                       = field_check ext spec now i"
    using evaluate_date_spec_first_failure [of _ ext spec now] by blast
  have none: "(\<forall>i<11. field_check ext spec now i = pcmk_rc_ok)
          \<longrightarrow> pcmk__evaluate_date_spec ext (Some spec) (Some now) = pcmk_rc_ok"
    using evaluate_date_spec_all_ok [of ext spec now] by blast
  have codes: "\<forall>i<11. field_check ext spec now i
                 \<in> {pcmk_rc_ok, pcmk_rc_before_range, pcmk_rc_after_range}"
    using check_range_codes [of ext spec] by (simp add: field_check_alt)
  have absent: "\<forall>attr v. crm_element_value spec attr = None
                 \<longrightarrow> check_range ext spec attr v = pcmk_rc_ok"
    using check_range_absent [of spec _ ext] by blast
  have invalid: "\<forall>attr v text. crm_element_value spec attr = Some text
                 \<longrightarrow> fst (pcmk__parse_ll_range ext text) \<noteq> pcmk_rc_ok
                 \<longrightarrow> check_range ext spec attr v = pcmk_rc_ok"
    using check_range_invalid [of spec _ _ ext] by blast
  have valid: "\<forall>attr v text low high.
          crm_element_value spec attr = Some text
          \<longrightarrow> pcmk__parse_ll_range ext text = (pcmk_rc_ok, low, high)
          \<longrightarrow> check_range ext spec attr v =
                (if low \<noteq> - 1 \<and> uint v < sint low then pcmk_rc_before_range
                 else if high \<noteq> - 1 \<and> sint high < uint v then pcmk_rc_after_range
                 else pcmk_rc_ok)"
    using check_range_valid [of spec _ _ ext] by blast
  have hours: "\<forall>text. crm_element_value spec PCMK_XA_YEARS = None
                 \<longrightarrow> crm_element_value spec PCMK_XA_MONTHS = Some text
                 \<longrightarrow> fst (pcmk__parse_ll_range ext text) \<noteq> pcmk_rc_ok
                 \<longrightarrow> crm_element_value spec PCMK_XA_MONTHDAYS = None
                 \<longrightarrow> check_range ext spec PCMK_XA_HOURS (fst (crm_time_get_timeofday ext now))
                       \<noteq> pcmk_rc_ok
                 \<longrightarrow> pcmk__evaluate_date_spec ext (Some spec) (Some now)
                       = check_range ext spec PCMK_XA_HOURS
                           (fst (crm_time_get_timeofday ext now))"
    using invalid_months_violated_hours [of spec _ ext now] by blast
  from order ranges_values [of ext now] first none codes absent invalid valid hours
  show ?thesis by blast
qed

text \<open>
  The specification with months \<open>June\<close> (no range) and hours \<open>9-17\<close>: after_range
  at 20 o'clock, before_range at 3 o'clock, ok at 10 o'clock. With hours \<open>6-\<close> there is
  no upper bound: ok at 20 o'clock, before_range at 3 o'clock.
\<close>

lemma example_date_spec_attrs:
  "crm_element_value example_date_spec PCMK_XA_YEARS = None"
  "crm_element_value example_date_spec PCMK_XA_MONTHS = Some ''June''"
  "crm_element_value example_date_spec PCMK_XA_MONTHDAYS = None"
  "crm_element_value example_date_spec PCMK_XA_HOURS = Some ''9-17''"
  "crm_element_value example_open_spec PCMK_XA_HOURS = Some ''6-''"
  by (simp_all add: example_date_spec_def example_open_spec_def crm_element_value_def xml_names)

lemma example_ranges_parsed:
  "fst (pcmk__parse_ll_range example_ext ''June'') = pcmk_rc_bad_input"
  "pcmk__parse_ll_range example_ext ''9-17'' = (pcmk_rc_ok, 9, 17)"
  "pcmk__parse_ll_range example_ext ''6-'' = (pcmk_rc_ok, 6, - 1)"
  by (simp_all add: example_ext_def example_parse_ll_range_def)

lemma example_hour:
  "fst (crm_time_get_timeofday example_ext 72000) = 20"
  "fst (crm_time_get_timeofday example_ext 10800) = 3"
  "fst (crm_time_get_timeofday example_ext 36000) = 10"
  by (simp_all add: example_ext_def)

lemma example_other_fields_ok:
  assumes "i < 11" and "i \<noteq> 3"
  shows "field_check example_ext example_date_spec now i = pcmk_rc_ok"
    and "field_check example_ext example_open_spec now i = pcmk_rc_ok"
proof -
  from assms
  have index: "i = 0 \<or> i = 1 \<or> i = 2 \<or> i = 4 \<or> i = 5 \<or> i = 6 \<or> i = 7 \<or> i = 8 \<or> i = 9
               \<or> i = 10"
    by arith
  from index show "field_check example_ext example_date_spec now i = pcmk_rc_ok"
    by (elim disjE)
      (simp_all add: field_check_def ranges_def check_range_def example_ext_def
        example_date_spec_def example_parse_ll_range_def crm_element_value_def xml_names)
  from index show "field_check example_ext example_open_spec now i = pcmk_rc_ok"
    by (elim disjE)
      (simp_all add: field_check_def ranges_def check_range_def example_ext_def
        example_open_spec_def example_parse_ll_range_def crm_element_value_def xml_names)
qed

theorem date_spec_first_violated_field_witness:
  "crm_element_value example_date_spec PCMK_XA_YEARS = None
   \<and> crm_element_value example_date_spec PCMK_XA_MONTHS = Some ''June''
   \<and> fst (pcmk__parse_ll_range example_ext ''June'') = pcmk_rc_bad_input
   \<and> crm_element_value example_date_spec PCMK_XA_MONTHDAYS = None
   \<and> crm_element_value example_date_spec PCMK_XA_HOURS = Some ''9-17''
   \<and> pcmk__parse_ll_range example_ext ''9-17'' = (pcmk_rc_ok, 9, 17)
   \<and> check_range example_ext example_date_spec PCMK_XA_HOURS 20 = pcmk_rc_after_range
   \<and> check_range example_ext example_date_spec PCMK_XA_HOURS 3 = pcmk_rc_before_range
   \<and> check_range example_ext example_date_spec PCMK_XA_HOURS 10 = pcmk_rc_ok
   \<and> check_range example_ext example_date_spec PCMK_XA_HOURS 9 = pcmk_rc_ok
   \<and> check_range example_ext example_date_spec PCMK_XA_HOURS 17 = pcmk_rc_ok
   \<and> check_range example_ext example_open_spec PCMK_XA_HOURS 20 = pcmk_rc_ok
   \<and> check_range example_ext example_open_spec PCMK_XA_HOURS 3 = pcmk_rc_before_range
   \<and> pcmk__evaluate_date_spec example_ext (Some example_date_spec) (Some 72000)
       = pcmk_rc_after_range
   \<and> pcmk__evaluate_date_spec example_ext (Some example_date_spec) (Some 10800)
       = pcmk_rc_before_range
   \<and> pcmk__evaluate_date_spec example_ext (Some example_date_spec) (Some 36000)
       = pcmk_rc_ok
   \<and> pcmk__evaluate_date_spec example_ext (Some example_open_spec) (Some 72000)
       = pcmk_rc_ok"
proof -
  note closed = date_spec_first_violated_field [of example_ext 72000 example_date_spec]
  note early = date_spec_first_violated_field [of example_ext 10800 example_date_spec]
  note inside = date_spec_first_violated_field [of example_ext 36000 example_date_spec]
  note open_high = date_spec_first_violated_field [of example_ext 72000 example_open_spec]
  have range_9_17: "check_range example_ext example_date_spec PCMK_XA_HOURS v =
          (if uint v < 9 then pcmk_rc_before_range
           else if 17 < uint v then pcmk_rc_after_range else pcmk_rc_ok)" for v
    using closed example_date_spec_attrs(4) example_ranges_parsed(2) by simp
  have range_6: "check_range example_ext example_open_spec PCMK_XA_HOURS v =
          (if uint v < 6 then pcmk_rc_before_range else pcmk_rc_ok)" for v
    using open_high example_date_spec_attrs(5) example_ranges_parsed(3) by simp
  have at_20: "pcmk__evaluate_date_spec example_ext (Some example_date_spec) (Some 72000)
               = pcmk_rc_after_range"
    using closed example_date_spec_attrs example_ranges_parsed(1) example_hour(1)
    by (simp add: range_9_17)
  have at_3: "pcmk__evaluate_date_spec example_ext (Some example_date_spec) (Some 10800)
              = pcmk_rc_before_range"
    using early example_date_spec_attrs example_ranges_parsed(1) example_hour(2)
    by (simp add: range_9_17)
  have hours_10: "field_check example_ext example_date_spec 36000 3 = pcmk_rc_ok"
    by (simp add: field_check_hours example_hour(3) range_9_17)
  have "field_check example_ext example_date_spec 36000 i = pcmk_rc_ok" if "i < 11" for i
    using that example_other_fields_ok(1) [of i 36000] hours_10 by (cases "i = 3") simp_all
  with inside have at_10: "pcmk__evaluate_date_spec example_ext (Some example_date_spec)
      (Some 36000) = pcmk_rc_ok"
    by blast
  have hours_20: "field_check example_ext example_open_spec 72000 3 = pcmk_rc_ok"
    by (simp add: field_check_hours example_hour(1) range_6)
  have "field_check example_ext example_open_spec 72000 i = pcmk_rc_ok" if "i < 11" for i
    using that example_other_fields_ok(2) [of i 72000] hours_20 by (cases "i = 3") simp_all
  with open_high have open_20: "pcmk__evaluate_date_spec example_ext (Some example_open_spec)
      (Some 72000) = pcmk_rc_ok"
    by blast
  from at_20 at_3 at_10 open_20 example_date_spec_attrs example_ranges_parsed
  show ?thesis by (simp add: range_9_17 range_6)
qed

subsection \<open>Typed comparison\<close>

lemma cmp_by_type_string:
  "pcmk__cmp_by_type sc (Some l) (Some r) pcmk__type_string = strcasecmp l r"
  by (simp add: pcmk__cmp_by_type.simps)

lemma cmp_by_type_integer_parsed:
  assumes "pcmk__scan_ll sc l = (pcmk_rc_ok, a)" and "pcmk__scan_ll sc r = (pcmk_rc_ok, b)"
  shows "pcmk__cmp_by_type sc (Some l) (Some r) pcmk__type_integer
         = (if sint a < sint b then - 1 else if sint b < sint a then 1 else 0)"
  using assms by (simp add: pcmk__cmp_by_type.simps [of sc _ _ pcmk__type_integer])

lemma cmp_by_type_integer_fallback:
  assumes "fst (pcmk__scan_ll sc l) \<noteq> pcmk_rc_ok \<or> fst (pcmk__scan_ll sc r) \<noteq> pcmk_rc_ok"
  shows "pcmk__cmp_by_type sc (Some l) (Some r) pcmk__type_integer = strcasecmp l r"
  using assms
  by (auto simp add: pcmk__cmp_by_type.simps [of sc _ _ pcmk__type_integer]
      cmp_by_type_string split: prod.split)

lemma cmp_by_type_integer_10_9:
  "pcmk__cmp_by_type example_scanners (Some ''10'') (Some ''9'') pcmk__type_integer = 1"
  by (simp add: cmp_by_type_integer_parsed [of _ _ 10 _ 9] example_scanners_def)

text \<open>
  Claim C5. The integer comparison is as claimed (the lemmas above: both numbers parsed
  gives the signed numeric comparison, a failed parse gives the string comparison, and
  10 against 9 as integers gives 1). The string comparison of 10 and 9 is not - 1: the
  function returns the value of \<^verbatim>\<open>strcasecmp\<close> as it is, the byte difference
  of the characters 1 and 9, while its documentation and its integer and number branches
  give - 1, 0 or 1.
\<close>

theorem cmp_by_type_string_10_9:
  "pcmk__cmp_by_type sc (Some ''10'') (Some ''9'') pcmk__type_string = - 8
   \<and> pcmk__cmp_by_type sc (Some ''10'') (Some ''9'') pcmk__type_string \<noteq> - 1"
  by (simp add: cmp_by_type_string tolower_def)

theorem cmp_by_type_string_10_9_witness:
  "pcmk__cmp_by_type example_scanners (Some ''10'') (Some ''9'') pcmk__type_string = - 8
   \<and> pcmk__cmp_by_type example_scanners (Some ''10'') (Some ''9'') pcmk__type_integer = 1"
  using cmp_by_type_string_10_9 [of example_scanners] cmp_by_type_integer_10_9
  by simp

text \<open>
  Claim C6. Absent operands are handled the same way for every value type: both absent
  gives 0, only the right one absent gives 1, only the left one absent gives - 1.
\<close>

theorem cmp_by_type_null_operands:
  "pcmk__cmp_by_type sc None None ty = 0
   \<and> pcmk__cmp_by_type sc (Some l) None ty = 1
   \<and> pcmk__cmp_by_type sc None (Some r) ty = - 1"
  by (simp add: pcmk__cmp_by_type.simps [of sc _ _ ty])

theorem cmp_by_type_null_operands_witness:
  "pcmk__cmp_by_type example_scanners None (Some ''x'') pcmk__type_string = - 1
   \<and> pcmk__cmp_by_type example_scanners (Some ''x'') None pcmk__type_string = 1
   \<and> pcmk__cmp_by_type example_scanners None None pcmk__type_string = 0"
  using cmp_by_type_null_operands [of example_scanners pcmk__type_string "''x''" "''x''"]
  by simp

subsection \<open>Durations\<close>

lemma ADD_COMPONENT_fold:
  assumes "\<And>t c. fst (pcmk__add_time_from_xml ext t c d) \<noteq> pcmk_rc_ok
                 \<Longrightarrow> snd (pcmk__add_time_from_xml ext t c d) = t"
  shows "foldl (\<lambda>st c. ADD_COMPONENT ext d c st) (rc, t, ws) cs =
           (case spec_add_duration ext d cs t of
              (end_time, errors) \<Rightarrow>
                (if errors = [] then rc else snd (last errors), end_time,
                 ws @ map (\<lambda>(c, sub_rc). Warn_ignoring c) errors))"
proof (induction cs arbitrary: rc t ws)
  case Nil
  show ?case by simp
next
  case (Cons c cs)
  obtain sub_rc t' where step: "pcmk__add_time_from_xml ext t c d = (sub_rc, t')"
    by (cases "pcmk__add_time_from_xml ext t c d")
  show ?case
  proof (cases "sub_rc = pcmk_rc_ok")
    case True
    with step Cons.IH [of rc t' ws] show ?thesis
      by (simp add: ADD_COMPONENT_def)
  next
    case False
    from assms [of t c] step False have same: "t' = t" by simp
    obtain e errs where rest: "spec_add_duration ext d cs t = (e, errs)"
      by (cases "spec_add_duration ext d cs t")
    from False step same rest Cons.IH [of sub_rc t "ws @ [Warn_ignoring c]"] show ?thesis
      by (simp add: ADD_COMPONENT_def)
  qed
qed

lemma unpack_duration_fold:
  "pcmk__unpack_duration ext (Some d) (Some s) (Some None) =
     (case foldl (\<lambda>st c. ADD_COMPONENT ext d c st)
             (pcmk_rc_ok, s, if pcmk__str_empty (pcmk__xe_id d) then [Warn_no_id] else [])
             time_components of
        (rc, end_time, warnings) \<Rightarrow> (rc, Some (Some end_time), warnings))"
  by (simp add: pcmk__unpack_duration_def time_components_def pcmk_copy_time_def Let_def)

text \<open>
  Claim C8. Called with a duration, a start and an empty place for the end,
  \<^verbatim>\<open>pcmk__unpack_duration\<close> applies the seven components to a copy of the
  start in the order years, months, weeks, days, hours, minutes, seconds. It never stops
  at an invalid component: provided the addition leaves the instant alone when it
  reports an error, the end it stores is the best-effort instant of the specification's
  fold, every invalid component is recorded by a configuration warning in the order met,
  and the return code is ok when there was none and the code of the last invalid
  component otherwise.
\<close>

theorem unpack_duration_best_effort:
  assumes "\<And>t c. fst (pcmk__add_time_from_xml ext t c duration) \<noteq> pcmk_rc_ok
                 \<Longrightarrow> snd (pcmk__add_time_from_xml ext t c duration) = t"
  shows "pcmk__unpack_duration ext (Some duration) (Some start) (Some None) =
           (case spec_add_duration ext duration time_components start of
              (end_time, errors) \<Rightarrow>
                (if errors = [] then pcmk_rc_ok else snd (last errors),
                 Some (Some end_time),
                 (if pcmk__str_empty (pcmk__xe_id duration) then [Warn_no_id] else [])
                   @ map (\<lambda>(c, sub_rc). Warn_ignoring c) errors))"
  by (simp add: unpack_duration_fold ADD_COMPONENT_fold [OF assms] split: prod.split)

lemma example_skips:
  "fst (pcmk__add_time_from_xml example_ext t c d) \<noteq> pcmk_rc_ok
   \<Longrightarrow> snd (pcmk__add_time_from_xml example_ext t c d) = t"
  by (auto simp add: example_ext_def example_add_time_def split: option.splits)

theorem unpack_duration_best_effort_witness:
  "spec_add_duration example_ext example_duration time_components 100
       = (102, [(pcmk__time_hours, pcmk_rc_unpack_error)])
   \<and> pcmk__unpack_duration example_ext (Some example_duration) (Some 100) (Some None)
       = (pcmk_rc_unpack_error, Some (Some 102), [Warn_ignoring pcmk__time_hours])"
proof -
  have fold: "spec_add_duration example_ext example_duration time_components 100
              = (102, [(pcmk__time_hours, pcmk_rc_unpack_error)])"
    by (simp add: time_components_def example_ext_def example_add_time_def
        example_duration_def crm_element_value_def example_component_attr_def
        example_seconds_of_def)
  have id: "\<not> pcmk__str_empty (pcmk__xe_id example_duration)"
    by (simp add: pcmk__str_empty_def pcmk__xe_id_def crm_element_value_def
        example_duration_def xml_names)
  from unpack_duration_best_effort [of example_ext example_duration 100, OF example_skips]
    fold id
  show ?thesis by simp
qed

subsection \<open>Submatch expansion\<close>

lemma digit_index:
  "isdigit d \<Longrightarrow> int (of_char d) - 48 = int (digit_of d)"
  by (simp add: isdigit_def digit_of_def)

lemma take_length_in_bounds:
  "\<not> so < 0 \<and> \<not> eo \<le> so \<Longrightarrow> eo \<le> int L \<Longrightarrow> min (L - nat so) (nat (eo - so)) = nat (eo - so)"
  by linarith

lemma in_bounds_entry:
  assumes "submatches_in_bounds match submatches nmatches" and "\<not> nmatches \<le> int i"
  shows "i < length submatches" and "rm_eo (submatches ! i) \<le> int (length match)"
proof -
  from assms show i: "i < length submatches"
    by (simp add: submatches_in_bounds_def)
  from assms have "list_all (\<lambda>m. rm_eo m \<le> int (length match)) submatches"
    by (simp add: submatches_in_bounds_def)
  with i show "rm_eo (submatches ! i) \<le> int (length match)"
    by (simp add: list_all_length)
qed

lemma loop_count:
  assumes "submatches_in_bounds match submatches nmatches"
  shows "process_submatches_loop s match submatches nmatches expanded None (Some n) =
           Inr (expanded \<or> has_placeholder s, None,
                Some (n + length (spec_expansion s match submatches nmatches)))"
proof (induction "length s" arbitrary: s expanded n rule: less_induct)
  case less
  show ?case
  proof (cases s)
    case Nil
    then show ?thesis by simp
  next
    case (Cons c s')
    show ?thesis
    proof (cases s')
      case Nil
      with Cons show ?thesis by simp
    next
      case (Cons d rest)
      have s: "s = c # d # rest" using \<open>s = c # s'\<close> Cons by simp
      show ?thesis
      proof (cases "c = CHR ''%'' \<and> isdigit d")
        case False
        have "length (d # rest) < length s" using s by simp
        from less [OF this, of expanded "Suc n"] False s show ?thesis by auto
      next
        case True
        then have idx: "int (of_char d) - 48 = int (digit_of d)"
          by (simp add: digit_index)
        have shorter: "length rest < length s" using s by simp
        show ?thesis
        proof (cases "nmatches \<le> int (digit_of d)")
          case le: True
          from less [OF shorter, of True n] True s le idx show ?thesis
            by (simp add: group_text_def)
        next
          case gt: False
          from in_bounds_entry [OF assms gt]
          have entry: "\<not> length submatches \<le> digit_of d" by simp
          show ?thesis
          proof (cases "rm_so (submatches ! digit_of d) < 0
                        \<or> rm_eo (submatches ! digit_of d) \<le> rm_so (submatches ! digit_of d)")
            case empty: True
            from less [OF shorter, of True n] True s gt idx entry empty show ?thesis
              by (simp add: group_text_def Let_def)
          next
            case full: False
            from in_bounds_entry [OF assms gt] full
            have len: "length (group_text match submatches nmatches (digit_of d))
                       = nat (rm_eo (submatches ! digit_of d) - rm_so (submatches ! digit_of d))"
              using gt by (simp add: group_text_def Let_def take_length_in_bounds)
            from less [OF shorter, of True
                "n + nat (rm_eo (submatches ! digit_of d) - rm_so (submatches ! digit_of d))"]
              True s gt idx entry full len
            show ?thesis by (simp add: Let_def)
          qed
        qed
      qed
    qed
  qed
qed

lemma loop_fill:
  assumes "submatches_in_bounds match submatches nmatches"
  shows "process_submatches_loop s match submatches nmatches expanded (Some e) None =
           Inr (expanded \<or> has_placeholder s,
                Some (e @ spec_expansion s match submatches nmatches), None)"
proof (induction "length s" arbitrary: s expanded e rule: less_induct)
  case less
  show ?case
  proof (cases s)
    case Nil
    then show ?thesis by simp
  next
    case (Cons c s')
    show ?thesis
    proof (cases s')
      case Nil
      with Cons show ?thesis by simp
    next
      case (Cons d rest)
      have s: "s = c # d # rest" using \<open>s = c # s'\<close> Cons by simp
      show ?thesis
      proof (cases "c = CHR ''%'' \<and> isdigit d")
        case False
        have "length (d # rest) < length s" using s by simp
        from less [OF this, of expanded "e @ [c]"] False s show ?thesis by auto
      next
        case True
        then have idx: "int (of_char d) - 48 = int (digit_of d)"
          by (simp add: digit_index)
        have shorter: "length rest < length s" using s by simp
        show ?thesis
        proof (cases "nmatches \<le> int (digit_of d)")
          case le: True
          from less [OF shorter, of True e] True s le idx show ?thesis
            by (simp add: group_text_def)
        next
          case gt: False
          from in_bounds_entry [OF assms gt]
          have entry: "\<not> length submatches \<le> digit_of d"
            and bound: "\<not> int (length match) < rm_eo (submatches ! digit_of d)" by simp_all
          show ?thesis
          proof (cases "rm_so (submatches ! digit_of d) < 0
                        \<or> rm_eo (submatches ! digit_of d) \<le> rm_so (submatches ! digit_of d)")
            case empty: True
            from less [OF shorter, of True e] True s gt idx entry empty show ?thesis
              by (simp add: group_text_def Let_def)
          next
            case full: False
            from less [OF shorter, of True
                "e @ group_text match submatches nmatches (digit_of d)"]
              True s gt idx entry full bound
            show ?thesis by (simp add: Let_def group_text_def)
          qed
        qed
      qed
    qed
  qed
qed

lemma process_submatches_count:
  assumes "submatches_in_bounds match submatches nmatches"
  shows "process_submatches s match submatches nmatches None (Some n) =
           Inr (has_placeholder s, None,
                Some (length (spec_expansion s match submatches nmatches) + 1))"
  by (simp add: process_submatches_def loop_count [OF assms])

lemma process_submatches_fill:
  assumes "submatches_in_bounds match submatches nmatches"
  shows "process_submatches s match submatches nmatches (Some []) None =
           Inr (has_placeholder s, Some (spec_expansion s match submatches nmatches), None)"
  by (simp add: process_submatches_def loop_fill [OF assms])

text \<open>
  Claim C7, as stated, fails where a placeholder expands to its own text: the template
  \<open>%1\<close> against a match that reads \<open>%1\<close>, captured whole by group 1. No placeholder
  changes anything, yet the function returns a newly allocated string equal to the
  template and not NULL.
\<close>

theorem replace_submatches_copy_of_input:
  "pcmk__replace_submatches (Some ''%1'') ''%1'' example_self_submatches 2 = Inr (Some ''%1'')
   \<and> pcmk__replace_submatches (Some ''%1'') ''%1'' example_self_submatches 2 \<noteq> Inr None"
  by (simp add: pcmk__replace_submatches_def pcmk__str_empty_def process_submatches_def
      isdigit_def example_self_submatches_def)

text \<open>
  Claim C7, amended. For submatches as \<^verbatim>\<open>regexec\<close> sets them, the function
  returns NULL exactly when the template is absent, empty or holds no placeholder (a
  percent sign followed by a digit). Otherwise it returns the template in which every
  placeholder is replaced by its group's text, deleted when the group index is at least
  the submatch count, when the group did not take part in the match or when its range is
  empty, and every other character is copied, a percent sign that no digit follows
  included; this holds also when the result equals the template. The first pass counts
  exactly the bytes of that string and its terminator.
\<close>

theorem replace_submatches_expansion:
  assumes "submatches_in_bounds match submatches nmatches"
  shows "pcmk__replace_submatches (Some template) match submatches nmatches =
           Inr (if has_placeholder template
                then Some (spec_expansion template match submatches nmatches) else None)
       \<and> pcmk__replace_submatches None match submatches nmatches = Inr None
       \<and> process_submatches template match submatches nmatches None (Some 0)
           = Inr (has_placeholder template, None,
                  Some (length (spec_expansion template match submatches nmatches) + 1))"
  by (cases template)
     (simp_all add: pcmk__replace_submatches_def pcmk__str_empty_def
       process_submatches_count [OF assms] process_submatches_fill [OF assms])

lemma example_in_bounds: "submatches_in_bounds example_match example_submatches 3"
  by (simp add: submatches_in_bounds_def example_match_def example_submatches_def)

theorem replace_submatches_expansion_witness:
  "submatches_in_bounds example_match example_submatches 3
   \<and> pcmk__replace_submatches (Some ''backup-%1%2%7-%x%'') example_match example_submatches 3
       = Inr (Some ''backup-prod-%x%'')
   \<and> pcmk__replace_submatches (Some ''static text'') example_match example_submatches 3
       = Inr None"
  using replace_submatches_expansion [OF example_in_bounds, of "''backup-%1%2%7-%x%''"]
    replace_submatches_expansion [OF example_in_bounds, of "''static text''"]
    example_in_bounds
  by (simp add: isdigit_def group_text_def digit_of_def example_match_def
      example_submatches_def)

end
